theory Spec2Isabelle
  imports Complex_Main
begin

section \<open>Runtime configuration\<close>

text \<open>
  The gateway (\<^verbatim>\<open>server.js\<close>) reads its configuration from the process environment.
  \<^verbatim>\<open>IS_PRODUCTION\<close> is \<^verbatim>\<open>process.env.NODE_ENV === 'production'\<close>; the other
  variables are strings that may be unset.

  Counters, thresholds, timeouts, status codes and clock readings are integers, far inside
  the range in which a double holds every integer. The numbers a caller supplies and the
  arithmetic on them are IEEE-754 doubles, modelled in their own section.
  \<open>ENV_TOKEN_EXPIRY\<close> is what
  \<^verbatim>\<open>parseInt(process.env.TOKEN_EXPIRY)\<close> yields, \<open>None\<close> standing for \<^verbatim>\<open>NaN\<close>;
  \<open>NODE_VERSION\<close> is \<^verbatim>\<open>process.version\<close>.
\<close>

record environment =
  IS_PRODUCTION :: bool
  DISABLE_SSL_VALIDATION :: "string option"
  AWS_REGION :: "string option"
  ENV_DUIX_APP_ID :: "string option"
  ENV_DUIX_APP_KEY :: "string option"
  ENV_TOKEN_EXPIRY :: "int option"
  NODE_VERSION :: string

section \<open>Circuit breaker\<close>

text \<open>
  \<^verbatim>\<open>duixApiCircuitBreaker\<close> is a module-level object; the two functions that touch it
  take it as an argument and return it updated. Each of them reads \<^verbatim>\<open>Date.now()\<close> at most
  once; that reading is the argument \<open>now\<close>.
\<close>

datatype breaker_mode = CLOSED | OPEN | HALF_OPEN

record circuit_breaker =
  failures :: int
  lastFailureTime :: int
  state :: breaker_mode
  failureThreshold :: int
  recoveryTimeoutMs :: int

definition duixApiCircuitBreaker :: circuit_breaker where
  "duixApiCircuitBreaker =
     \<lparr>failures = 0, lastFailureTime = 0, state = CLOSED,
      failureThreshold = 5, recoveryTimeoutMs = 60000\<rparr>"

definition updateCircuitBreaker :: "bool \<Rightarrow> int \<Rightarrow> circuit_breaker \<Rightarrow> circuit_breaker" where
  "updateCircuitBreaker success now cb =
     (if success then cb\<lparr>failures := 0, state := CLOSED\<rparr>
      else
        (let cb1 = cb\<lparr>failures := failures cb + 1, lastFailureTime := now\<rparr>
         in if failures cb1 \<ge> failureThreshold cb1 then cb1\<lparr>state := OPEN\<rparr> else cb1))"

definition shouldAttemptDuixCall :: "int \<Rightarrow> circuit_breaker \<Rightarrow> bool \<times> circuit_breaker" where
  "shouldAttemptDuixCall now cb =
     (if state cb = CLOSED then (True, cb)
      else if state cb = OPEN then
        (if now - lastFailureTime cb > recoveryTimeoutMs cb
         then (True, cb\<lparr>state := HALF_OPEN\<rparr>)
         else (False, cb))
      else (True, cb))"

text \<open>A run of recorded failures, one clock reading per call.\<close>

fun record_failures :: "int list \<Rightarrow> circuit_breaker \<Rightarrow> circuit_breaker" where
  "record_failures [] cb = cb"
| "record_failures (t # ts) cb = record_failures ts (updateCircuitBreaker False t cb)"

text \<open>A run of \<^verbatim>\<open>shouldAttemptDuixCall()\<close> calls: the answers in order, and the breaker after.\<close>

fun poll_breaker :: "int list \<Rightarrow> circuit_breaker \<Rightarrow> bool list \<times> circuit_breaker" where
  "poll_breaker [] cb = ([], cb)"
| "poll_breaker (t # ts) cb =
     (let (ok, cb1) = shouldAttemptDuixCall t cb;
          (oks, cb2) = poll_breaker ts cb1
      in (ok # oks, cb2))"

section \<open>Outbound connection profile\<close>

text \<open>
  \<^verbatim>\<open>createHTTPSAgent(strategy = 'production')\<close> builds the options object it hands to
  \<^verbatim>\<open>new https.Agent\<close>. The record below is that object, field for field (a field the
  source sets to \<^verbatim>\<open>undefined\<close> is \<open>None\<close>). The assignment
  \<^verbatim>\<open>baseConfig.localAddress = undefined\<close> under \<^verbatim>\<open>AWS_REGION\<close> stores no value and has
  no field here.

  The \<^verbatim>\<open>checkServerIdentity\<close> callback calls Node's \<^verbatim>\<open>tls.checkServerIdentity\<close>; what
  that call did for the server name and certificate at hand is the callback's argument, and
  the callback's result is the error it hands back (\<open>None\<close>: the peer is accepted).
\<close>

datatype tls_check = Returned "string option" | Threw string

record https_agent_options =
  rejectUnauthorized :: bool
  keepAlive :: bool
  maxSockets :: int
  maxFreeSockets :: int
  timeout :: int
  freeSocketTimeout :: int
  secureProtocol :: string
  minVersion :: "string option"
  maxVersion :: "string option"
  ciphers :: string
  checkServerIdentity :: "tls_check \<Rightarrow> string option"
  honorCipherOrder :: bool
  requestCert :: bool
  headers :: "(string \<times> string) list"

fun join :: "string \<Rightarrow> string list \<Rightarrow> string" where
  "join sep [] = []"
| "join sep [x] = x"
| "join sep (x # y # ys) = x @ sep @ join sep (y # ys)"

definition duix_cipher_suites :: "string list" where
  "duix_cipher_suites =
     [''ECDHE-RSA-AES256-GCM-SHA384'',
      ''ECDHE-RSA-AES128-GCM-SHA256'',
      ''ECDHE-RSA-AES256-SHA384'',
      ''ECDHE-RSA-AES128-SHA256'',
      ''AES256-GCM-SHA384'',
      ''AES128-GCM-SHA256'',
      ''AES256-SHA256'',
      ''AES128-SHA256'',
      ''HIGH:!aNULL:!eNULL:!EXPORT:!DES:!RC4:!MD5:!PSK:!SRP:!CAMELLIA'']"

definition alb_cipher_suites :: "string list" where
  "alb_cipher_suites =
     [''ECDHE-RSA-AES256-GCM-SHA384'',
      ''ECDHE-RSA-AES128-GCM-SHA256'',
      ''ECDHE-RSA-AES256-SHA384'',
      ''ECDHE-RSA-AES128-SHA256'',
      ''AES256-GCM-SHA384'',
      ''AES128-GCM-SHA256'']"

definition shouldValidateSSL :: "environment \<Rightarrow> string \<Rightarrow> bool" where
  "shouldValidateSSL env strategy =
     (let isForDuixAPI = (strategy = ''duix_api'')
      in if IS_PRODUCTION env then \<not> isForDuixAPI
         else (DISABLE_SSL_VALIDATION env \<noteq> Some ''true'' \<and> \<not> isForDuixAPI))"

definition createHTTPSAgent :: "environment \<Rightarrow> string \<Rightarrow> https_agent_options" where
  "createHTTPSAgent env strategy =
     (let isForDuixAPI = (strategy = ''duix_api'');
          validate = shouldValidateSSL env strategy
      in \<lparr>rejectUnauthorized = validate,
          keepAlive = True,
          maxSockets = (if IS_PRODUCTION env then 50 else 10),
          maxFreeSockets = (if IS_PRODUCTION env then 20 else 5),
          timeout = (if IS_PRODUCTION env then 20000 else 30000),
          freeSocketTimeout = 30000,
          secureProtocol = ''TLSv1_2_method'',
          minVersion = (if isForDuixAPI then None else Some ''TLSv1.2''),
          maxVersion = (if isForDuixAPI then None else Some ''TLSv1.3''),
          ciphers = (if isForDuixAPI then join '':'' duix_cipher_suites
                     else join '':'' alb_cipher_suites),
          checkServerIdentity =
            (if validate
             then (\<lambda>r. case r of
                         Returned e \<Rightarrow> e
                       | Threw err \<Rightarrow> (if isForDuixAPI then None else Some err))
             else (\<lambda>r. None)),
          honorCipherOrder = True,
          requestCert = False,
          headers = [(''Connection'', ''keep-alive''),
                     (''User-Agent'', ''DUIX-AWS-Hybrid/1.0 (Node.js '' @ NODE_VERSION env @ '')'')]\<rparr>)"

section \<open>JavaScript numbers\<close>

text \<open>
  A JavaScript number is an IEEE-754 double. A finite double is modelled by its value, a
  rational number (the two zeros are one value); \<open>PosInf\<close>, \<open>NegInf\<close> and \<open>NaN\<close> are
  the other doubles. Arithmetic computes the exact rational result and rounds it to the
  nearest double, ties to the even mantissa, as the language prescribes: \<open>fl\<close> rounds to 53
  significant bits, or to a multiple of 2 to the power -1074 in the subnormal range, and a
  rounded magnitude of 2 to the power 1024 or more is an infinity.
\<close>

function bits :: "nat \<Rightarrow> nat" where
  "bits n = (if n = 0 then 0 else Suc (bits (n div 2)))"
  by pat_completeness auto
termination
  by (relation "measure (\<lambda>n. n)") auto

declare bits.simps [simp del]

text \<open>
  \<open>bits n\<close> is the length of \<open>n\<close> in binary; \<open>ilog2 a\<close> is the exponent \<open>e\<close> of the
  power of two with \<open>2 ^ e \<le> a < 2 ^ (e + 1)\<close>, for \<open>a > 0\<close>.
\<close>

definition ilog2 :: "rat \<Rightarrow> int" where
  "ilog2 a = (if 1 \<le> a then int (bits (nat \<lfloor>a\<rfloor>)) - 1
              else - int (bits (nat (\<lceil>1 / a\<rceil> - 1))))"

definition round_half_even :: "rat \<Rightarrow> int" where
  "round_half_even m =
     (let f = \<lfloor>m\<rfloor>; r = m - of_int f
      in if r < 1 / 2 then f else if 1 / 2 < r then f + 1 else if even f then f else f + 1)"

definition fl :: "rat \<Rightarrow> rat" where
  "fl x =
     (if x = 0 then 0
      else (let s = max (ilog2 \<bar>x\<bar> - 52) (- 1074)
            in of_int (round_half_even (x / 2 powi s)) * 2 powi s))"

datatype js_number = Fin rat | PosInf | NegInf | NaN

definition round_result :: "rat \<Rightarrow> js_number" where
  "round_result x =
     (let y = fl x
      in if 2 ^ 1024 \<le> y then PosInf else if y \<le> - (2 ^ 1024) then NegInf else Fin y)"

text \<open>A rational that is a finite double: rounding leaves it as it is.\<close>

definition representable :: "rat \<Rightarrow> bool" where
  "representable x = (round_result x = Fin x)"

fun js_add :: "js_number \<Rightarrow> js_number \<Rightarrow> js_number" where
  "js_add (Fin a) (Fin b) = round_result (a + b)"
| "js_add NaN n = NaN"
| "js_add n NaN = NaN"
| "js_add PosInf NegInf = NaN"
| "js_add NegInf PosInf = NaN"
| "js_add PosInf n = PosInf"
| "js_add n PosInf = PosInf"
| "js_add NegInf n = NegInf"
| "js_add n NegInf = NegInf"

fun js_sub :: "js_number \<Rightarrow> js_number \<Rightarrow> js_number" where
  "js_sub (Fin a) (Fin b) = round_result (a - b)"
| "js_sub NaN n = NaN"
| "js_sub n NaN = NaN"
| "js_sub PosInf PosInf = NaN"
| "js_sub NegInf NegInf = NaN"
| "js_sub PosInf n = PosInf"
| "js_sub n NegInf = PosInf"
| "js_sub NegInf n = NegInf"
| "js_sub n PosInf = NegInf"

fun js_mul :: "js_number \<Rightarrow> js_number \<Rightarrow> js_number" where
  "js_mul (Fin a) (Fin b) = round_result (a * b)"
| "js_mul NaN n = NaN"
| "js_mul n NaN = NaN"
| "js_mul (Fin a) PosInf = (if a = 0 then NaN else if 0 < a then PosInf else NegInf)"
| "js_mul (Fin a) NegInf = (if a = 0 then NaN else if 0 < a then NegInf else PosInf)"
| "js_mul PosInf (Fin b) = (if b = 0 then NaN else if 0 < b then PosInf else NegInf)"
| "js_mul NegInf (Fin b) = (if b = 0 then NaN else if 0 < b then NegInf else PosInf)"
| "js_mul PosInf PosInf = PosInf"
| "js_mul NegInf NegInf = PosInf"
| "js_mul PosInf NegInf = NegInf"
| "js_mul NegInf PosInf = NegInf"

text \<open>The comparison \<^verbatim>\<open>a == b\<close> of two numbers: \<^verbatim>\<open>NaN\<close> equals nothing.\<close>

definition js_equals :: "js_number \<Rightarrow> js_number \<Rightarrow> bool" where
  "js_equals a b = (a \<noteq> NaN \<and> b \<noteq> NaN \<and> a = b)"

text \<open>
  A clock reading (\<^verbatim>\<open>Date.now()\<close>) is an integer number of milliseconds, of magnitude at
  most 8.64e15; as a number it is \<open>clock_number\<close> of it. \<^verbatim>\<open>new Date(v)\<close> holds a valid time
  exactly when \<open>v\<close> is finite and within that range; \<^verbatim>\<open>toISOString\<close> throws otherwise.
\<close>

definition clock_number :: "int \<Rightarrow> js_number" where
  "clock_number t = Fin (of_int t)"

definition valid_date :: "js_number \<Rightarrow> bool" where
  "valid_date v = (case v of Fin x \<Rightarrow> \<bar>x\<bar> \<le> 8640000000000000 | _ \<Rightarrow> False)"

section \<open>JavaScript values\<close>

text \<open>
  The values a handler sees in a parsed JSON body and the objects it answers with.
  \<open>Undefined\<close> is what reading an absent property gives. An object is the list of its
  properties in the order the literal writes them; its keys are distinct. An exception is
  its class, with the message for a plain \<^verbatim>\<open>Error\<close>.
\<close>

datatype js_value =
    Undefined
  | Null
  | Bool bool
  | Number js_number
  | Str string
  | Arr "js_value list"
  | Obj "(string \<times> js_value) list"

datatype js_exception = TypeError | RangeError | Error string

definition error_name :: "js_exception \<Rightarrow> string" where
  "error_name e = (case e of TypeError \<Rightarrow> ''TypeError'' | RangeError \<Rightarrow> ''RangeError''
                   | Error m \<Rightarrow> ''Error'')"

text \<open>
  What the modelled code takes from the JavaScript runtime: \<^verbatim>\<open>StringToNumber\<close> (the
  numeric value of a string, \<^verbatim>\<open>NaN\<close> when it is not a numeric literal),
  \<^verbatim>\<open>Number::toString\<close>, and \<^verbatim>\<open>Date.prototype.toISOString\<close> of a valid time.
\<close>

record js_runtime =
  stringToNumber :: "string \<Rightarrow> js_number"
  numberToString :: "js_number \<Rightarrow> string"
  toISOString :: "int \<Rightarrow> string"

text \<open>Property access \<^verbatim>\<open>o.k\<close> on an object literal; an absent property is undefined.\<close>

fun get_prop :: "(string \<times> js_value) list \<Rightarrow> string \<Rightarrow> js_value" where
  "get_prop [] k = Undefined"
| "get_prop ((k', v) # kvs) k = (if k' = k then v else get_prop kvs k)"

definition js_get :: "js_value \<Rightarrow> string \<Rightarrow> js_value" where
  "js_get v k = (case v of Obj kvs \<Rightarrow> get_prop kvs k | _ \<Rightarrow> Undefined)"

definition js_keys :: "js_value \<Rightarrow> string list" where
  "js_keys v = (case v of Obj kvs \<Rightarrow> map fst kvs | _ \<Rightarrow> [])"

definition has_own :: "(string \<times> js_value) list \<Rightarrow> string \<Rightarrow> bool" where
  "has_own kvs k = (k \<in> set (map fst kvs))"

text \<open>
  \<^verbatim>\<open>ToString\<close> of a value that came out of \<^verbatim>\<open>JSON.parse\<close>. No property of such a value
  is callable. A plain object therefore converts through \<^verbatim>\<open>Object.prototype.toString\<close>,
  unless it has an own property \<^verbatim>\<open>toString\<close>, which hides that method: then neither
  \<^verbatim>\<open>toString\<close> nor \<^verbatim>\<open>valueOf\<close> yields a primitive and the conversion throws a
  \<^verbatim>\<open>TypeError\<close>. An array converts through \<^verbatim>\<open>Array.prototype.join\<close>, which takes
  \<^verbatim>\<open>null\<close> and \<^verbatim>\<open>undefined\<close> elements as empty strings and converts the others in order.
\<close>

fun js_to_string :: "js_runtime \<Rightarrow> js_value \<Rightarrow> js_exception + string"
  and js_join :: "js_runtime \<Rightarrow> js_value list \<Rightarrow> js_exception + string" where
  "js_to_string rt Undefined = Inr ''undefined''"
| "js_to_string rt Null = Inr ''null''"
| "js_to_string rt (Bool b) = Inr (if b then ''true'' else ''false'')"
| "js_to_string rt (Number n) = Inr (numberToString rt n)"
| "js_to_string rt (Str s) = Inr s"
| "js_to_string rt (Arr xs) = js_join rt xs"
| "js_to_string rt (Obj kvs) =
     (if has_own kvs ''toString'' then Inl TypeError else Inr ''[object Object]'')"
| "js_join rt [] = Inr []"
| "js_join rt (x # xs) =
     (case (if x = Undefined \<or> x = Null then Inr [] else js_to_string rt x) of
        Inl e \<Rightarrow> Inl e
      | Inr s \<Rightarrow>
          (if xs = [] then Inr s
           else (case js_join rt xs of Inl e \<Rightarrow> Inl e | Inr t \<Rightarrow> Inr (s @ '','' @ t))))"

text \<open>
  \<^verbatim>\<open>ToNumber\<close>, as the operator \<^verbatim>\<open>-\<close> applies it to an operand. An object or array is
  first made a primitive (preferring \<^verbatim>\<open>valueOf\<close>, which for these values never yields one),
  so it converts as its string does; \<^verbatim>\<open>[object Object]\<close> is no numeric literal.
\<close>

definition to_number :: "js_runtime \<Rightarrow> js_value \<Rightarrow> js_exception + js_number" where
  "to_number rt v =
     (case v of
        Undefined \<Rightarrow> Inr NaN
      | Null \<Rightarrow> Inr (Fin 0)
      | Bool b \<Rightarrow> Inr (Fin (if b then 1 else 0))
      | Number n \<Rightarrow> Inr n
      | Str s \<Rightarrow> Inr (stringToNumber rt s)
      | Arr xs \<Rightarrow> (case js_join rt xs of Inl e \<Rightarrow> Inl e | Inr s \<Rightarrow> Inr (stringToNumber rt s))
      | Obj kvs \<Rightarrow> (if has_own kvs ''toString'' then Inl TypeError else Inr NaN))"

text \<open>Truthiness, for \<^verbatim>\<open>a || b\<close>.\<close>

definition truthy :: "js_value \<Rightarrow> bool" where
  "truthy v =
     (case v of
        Undefined \<Rightarrow> False
      | Null \<Rightarrow> False
      | Bool b \<Rightarrow> b
      | Number n \<Rightarrow> (case n of Fin x \<Rightarrow> x \<noteq> 0 | PosInf \<Rightarrow> True | NegInf \<Rightarrow> True | NaN \<Rightarrow> False)
      | Str s \<Rightarrow> s \<noteq> []
      | Arr xs \<Rightarrow> True
      | Obj kvs \<Rightarrow> True)"

definition js_or :: "js_value \<Rightarrow> js_value \<Rightarrow> js_value" where
  "js_or a b = (if truthy a then a else b)"

definition opt_str :: "string option \<Rightarrow> js_value" where
  "opt_str v = (case v of None \<Rightarrow> Undefined | Some s \<Rightarrow> Str s)"


definition is_string :: "js_value \<Rightarrow> bool" where
  "is_string v = (case v of Str s \<Rightarrow> True | _ \<Rightarrow> False)"

section \<open>Credentials and the token signer\<close>

text \<open>
  \<^verbatim>\<open>process.env.X || d\<close> takes the default when the variable is unset or the empty
  string. At load time the module computes its constants and, under production, leaves with
  \<^verbatim>\<open>process.exit(1)\<close> when either credential variable is unset or empty.
\<close>

definition or_default :: "string option \<Rightarrow> string \<Rightarrow> string" where
  "or_default v d = (case v of None \<Rightarrow> d | Some s \<Rightarrow> if s = [] then d else s)"

definition falsy_var :: "string option \<Rightarrow> bool" where
  "falsy_var v = (case v of None \<Rightarrow> True | Some s \<Rightarrow> s = [])"

record credentials =
  DUIX_APP_ID :: string
  DUIX_APP_KEY :: string
  TOKEN_EXPIRY :: int

datatype startup = Exit int | Loaded credentials

definition load_credentials :: "environment \<Rightarrow> startup" where
  "load_credentials env =
     (let cfg = \<lparr>DUIX_APP_ID = or_default (ENV_DUIX_APP_ID env) ''1377185422953811968'',
                 DUIX_APP_KEY = or_default (ENV_DUIX_APP_KEY env)
                                  ''4f3725b2-7d48-4ea7-8640-d1a11eb00f8c'',
                 TOKEN_EXPIRY = (case ENV_TOKEN_EXPIRY env of
                                   None \<Rightarrow> 1800
                                 | Some n \<Rightarrow> if n = 0 then 1800 else n)\<rparr>
      in if IS_PRODUCTION env
            \<and> (falsy_var (ENV_DUIX_APP_ID env) \<or> falsy_var (ENV_DUIX_APP_KEY env))
         then Exit 1
         else Loaded cfg)"

text \<open>
  \<^verbatim>\<open>createDUIXToken(appId, appKey, sigExp)\<close> reads the clock once (\<open>now\<close>), takes
  \<^verbatim>\<open>Math.floor(now / 1000)\<close> (for a clock reading the quotient's rounding never reaches the
  next integer, so this is \<open>now div 1000\<close>) and adds \<^verbatim>\<open>sigExp\<close>, a number. Outside
  production it then logs \<^verbatim>\<open>new Date(now).toISOString()\<close> and
  \<^verbatim>\<open>new Date(expirationTimeSeconds * 1000).toISOString()\<close>, each of which throws a
  \<^verbatim>\<open>RangeError\<close> on an invalid time. Last it returns
  \<^verbatim>\<open>jwt.sign(payload, appKey, {algorithm: 'HS256'})\<close>. \<^verbatim>\<open>jwt.sign\<close> belongs to the
  \<^verbatim>\<open>jsonwebtoken\<close> package, which is not part of the repository: it is the parameter
  \<open>jwt_sign\<close>, yielding the exception it throws (\<open>Inl\<close>) or the token (\<open>Inr\<close>). The
  function has no \<^verbatim>\<open>try\<close>, so an exception leaves it as it is thrown. The payload's third
  field is \<^verbatim>\<open>exp\<close> in the source.
\<close>

record jwt_payload =
  appId :: string
  iat :: js_number
  exp' :: js_number

record sign_options =
  algorithm :: string

definition createDUIXToken ::
  "(jwt_payload \<Rightarrow> string \<Rightarrow> sign_options \<Rightarrow> js_exception + 'token)
     \<Rightarrow> environment \<Rightarrow> int \<Rightarrow> string \<Rightarrow> string \<Rightarrow> js_number \<Rightarrow> js_exception + 'token" where
  "createDUIXToken jwt_sign env now appId' appKey sigExp =
     (let currentTimeSeconds = clock_number (now div 1000);
          expirationTimeSeconds = js_add currentTimeSeconds sigExp
      in if \<not> IS_PRODUCTION env
            \<and> \<not> (valid_date (clock_number now)
                 \<and> valid_date (js_mul expirationTimeSeconds (Fin 1000)))
         then Inl RangeError
         else
           (let payload = \<lparr>appId = appId', iat = currentTimeSeconds,
                           exp' = expirationTimeSeconds\<rparr>
            in jwt_sign payload appKey \<lparr>algorithm = ''HS256''\<rparr>))"



section \<open>The latency route\<close>

text \<open>
  \<^verbatim>\<open>POST /api/measure-latency\<close>. The request is the parsed body (an object; body-parser
  leaves an empty object when there is none), \<^verbatim>\<open>req.secure\<close>, the
  \<^verbatim>\<open>User-Agent\<close> header, \<^verbatim>\<open>req.ip\<close> and the socket's remote address. The handler
  reads the clock on entry (\<open>serverReceiveTime\<close>), again after destructuring the body
  (\<open>serverProcessTime\<close>) and for the response's timestamp (\<open>stampTime\<close>); its
  \<^verbatim>\<open>catch\<close> block reads it for \<open>errorTime\<close> and for its own timestamp
  (\<open>errorStampTime\<close>). \<^verbatim>\<open>measurementType\<close> is destructured with a default and never used.
  The first statement of the \<^verbatim>\<open>try\<close> block that can throw is the subtraction
  \<^verbatim>\<open>serverReceiveTime - clientSendTime\<close>, when the conversion of \<^verbatim>\<open>clientSendTime\<close> to a
  number throws; the \<^verbatim>\<open>catch\<close> block then answers 500. The later subtraction converts the
  same value and the serialisation of the answer does not throw. The logging is not modelled.
\<close>

record request =
  body :: "(string \<times> js_value) list"
  secure :: bool
  user_agent_header :: "string option"
  ip :: "string option"
  remoteAddress :: "string option"

record http_response =
  status :: int
  json :: js_value

record handler_clock =
  serverReceiveTime :: int
  serverProcessTime :: int
  stampTime :: int
  errorTime :: int
  errorStampTime :: int

definition measure_latency ::
  "js_runtime \<Rightarrow> environment \<Rightarrow> handler_clock \<Rightarrow> request \<Rightarrow> http_response" where
  "measure_latency rt env clk req =
     (let clientSendTime = get_prop (body req) ''clientSendTime'';
          sessionId = get_prop (body req) ''sessionId'';
          userAgent = get_prop (body req) ''userAgent''
      in case to_number rt clientSendTime of
           Inr sent \<Rightarrow>
             (let networkLatency = js_sub (clock_number (serverReceiveTime clk)) sent;
                  serverProcessingTime =
                    js_sub (clock_number (serverProcessTime clk))
                      (clock_number (serverReceiveTime clk));
                  sslOverhead = (if secure req then ''HTTPS'' else ''HTTP'');
                  awsRegion = or_default (AWS_REGION env) ''local'';
                  latencyData = Obj
                    [(''success'', Bool True),
                     (''timestamp'', Str (toISOString rt (stampTime clk))),
                     (''measurements'', Obj
                        [(''clientSendTime'', clientSendTime),
                         (''serverReceiveTime'', Number (clock_number (serverReceiveTime clk))),
                         (''serverProcessTime'', Number (clock_number (serverProcessTime clk))),
                         (''networkLatency'', Number networkLatency),
                         (''serverProcessingTime'', Number serverProcessingTime),
                         (''totalRoundTrip'',
                            Number (js_sub (clock_number (serverProcessTime clk)) sent))]),
                     (''environment'', Obj
                        [(''ssl'', Str sslOverhead),
                         (''region'', Str awsRegion),
                         (''nodeVersion'', Str (NODE_VERSION env)),
                         (''isProduction'', Bool (IS_PRODUCTION env))]),
                     (''session'', Obj
                        [(''id'', sessionId),
                         (''userAgent'', js_or userAgent (opt_str (user_agent_header req))),
                         (''ip'', js_or (opt_str (ip req)) (opt_str (remoteAddress req)))])]
              in \<lparr>status = 200, json = latencyData\<rparr>)
         | Inl error \<Rightarrow>
             \<lparr>status = 500,
              json = Obj
                [(''success'', Bool False),
                 (''error'', Str ''Latency measurement failed''),
                 (''measurements'', Obj
                    [(''serverReceiveTime'', Number (clock_number (serverReceiveTime clk))),
                     (''errorTime'', Number (clock_number (errorTime clk))),
                     (''processingTime'',
                        Number (js_sub (clock_number (errorTime clk))
                                  (clock_number (serverReceiveTime clk))))]),
                 (''timestamp'', Str (toISOString rt (errorStampTime clk)))]\<rparr>)"

text \<open>The three derived measurements of a response.\<close>

definition measurement :: "http_response \<Rightarrow> string \<Rightarrow> js_value" where
  "measurement res k = js_get (js_get (json res) ''measurements'') k"

section \<open>Upstream call executor\<close>

text \<open>Template literals print an integer in decimal.\<close>

definition digit_char :: "nat \<Rightarrow> char" where
  "digit_char d = char_of (48 + d)"

function decimal :: "nat \<Rightarrow> string" where
  "decimal n = (if n < 10 then [digit_char n] else decimal (n div 10) @ [digit_char (n mod 10)])"
  by pat_completeness auto
termination
  by (relation "measure (\<lambda>n. n)") auto

declare decimal.simps [simp del]

definition string_of_int :: "int \<Rightarrow> string" where
  "string_of_int i = (if i < 0 then CHR ''-'' # decimal (nat (- i)) else decimal (nat i))"

definition mode_name :: "breaker_mode \<Rightarrow> string" where
  "mode_name m = (case m of CLOSED \<Rightarrow> ''CLOSED'' | OPEN \<Rightarrow> ''OPEN'' | HALF_OPEN \<Rightarrow> ''HALF_OPEN'')"

text \<open>
  The clock readings one call of \<^verbatim>\<open>callDUIXServiceWithToken\<close> can make, each
  \<^verbatim>\<open>Date.now()\<close> or \<^verbatim>\<open>new Date()\<close> of the source being a reading of its own:
  on entry, inside \<^verbatim>\<open>shouldAttemptDuixCall\<close>, inside \<^verbatim>\<open>updateCircuitBreaker\<close>, in the
  \<^verbatim>\<open>session_id\<close> template, in \<^verbatim>\<open>response_time_ms\<close>, and for the fallback's
  \<^verbatim>\<open>timestamp\<close>. Readings made only for log lines are left out with the logging.
\<close>

record executor_clock =
  entryTime :: int
  checkTime :: int
  updateTime :: int
  sessionTime :: int
  finishTime :: int
  timestampTime :: int

definition createFallbackResponse ::
  "js_runtime \<Rightarrow> environment \<Rightarrow> executor_clock \<Rightarrow> circuit_breaker
     \<Rightarrow> string \<Rightarrow> int \<Rightarrow> js_value \<Rightarrow> js_value" where
  "createFallbackResponse rt env clk cb question startTime errorInfo =
     Obj [(''session_id'', Str (''fallback_session_'' @ string_of_int (sessionTime clk))),
          (''data'', Obj
             [(''text'', Str (''[Hybrid Mode] Processing: '' @ [CHR 0x22] @ question @ [CHR 0x22]
                  @ '' - DUIX service temporarily unavailable, using local processing.'')),
              (''api_call_successful'', Bool False),
              (''api_status'', Number (Fin 503)),
              (''fallback_mode'', Bool True),
              (''aws_hybrid_response'', Bool True),
              (''response_time_ms'',
                 Number (js_sub (clock_number (finishTime clk)) (clock_number startTime))),
              (''circuit_breaker_state'', Str (mode_name (state cb))),
              (''error_info'', errorInfo),
              (''timestamp'', Str (toISOString rt (timestampTime clk))),
              (''aws_region'', Str (or_default (AWS_REGION env) ''local''))])]"

text \<open>
  One \<^verbatim>\<open>axios\<close> request ends with a response of some status, or with an error that has an
  optional \<^verbatim>\<open>code\<close> and a \<^verbatim>\<open>message\<close> (timeout, reset, refused, DNS). \<^verbatim>\<open>axios\<close>
  resolves a response whose status passes \<^verbatim>\<open>validateStatus\<close> and rejects any other with
  its bad-response error.
\<close>

record request_error =
  code :: "string option"
  message :: string

datatype upstream_result = HttpResponse int js_value | NetworkError request_error

datatype axios_outcome = Resolved int js_value | Rejected request_error

definition axios_request :: "(int \<Rightarrow> bool) \<Rightarrow> upstream_result \<Rightarrow> axios_outcome" where
  "axios_request validateStatus r =
     (case r of
        HttpResponse st d \<Rightarrow>
          if validateStatus st then Resolved st d
          else Rejected \<lparr>code = Some ''ERR_BAD_RESPONSE'',
                         message = ''Request failed with status code '' @ string_of_int st\<rparr>
      | NetworkError e \<Rightarrow> Rejected e)"

text \<open>\<^verbatim>\<open>error.code || error.message\<close>: the message when the code is absent or empty.\<close>

definition code_or_message :: "request_error \<Rightarrow> string" where
  "code_or_message error =
     (case code error of
        None \<Rightarrow> message error
      | Some c \<Rightarrow> if c = [] then message error else c)"

text \<open>
  What the executor does to the outside, in order: a request (attempt number, timeout in
  milliseconds, the agent built for it), a backoff sleep (milliseconds), a call of
  \<^verbatim>\<open>updateCircuitBreaker\<close>.
\<close>

datatype effect = Request nat int https_agent_options | Sleep int | BreakerUpdate bool

text \<open>
  The network as the executor meets it: the result of the request of attempt \<open>k\<close>, and the
  value of \<^verbatim>\<open>Math.random() * 1000\<close> drawn after attempt \<open>k\<close> (whole milliseconds).
\<close>

record network =
  upstream :: "nat \<Rightarrow> upstream_result"
  jitter :: "nat \<Rightarrow> int"

text \<open>
  \<^verbatim>\<open>callDUIXServiceWithToken(question, apiUrl, appId, clientToken)\<close>. The route that calls
  it has checked that \<^verbatim>\<open>question\<close> is a string and that \<^verbatim>\<open>clientToken\<close> is truthy, no
  more; the token is any value. Outside production the function first logs
  \<^verbatim>\<open>clientToken.substring(0, 20)\<close>, which throws a \<^verbatim>\<open>TypeError\<close> unless the token is a
  string; that happens before the breaker is asked, and the exception leaves the function. The
  URL, the application id and the token otherwise go into the request and nowhere else, and
  the request's result is the network's answer. The function returns its outcome (the
  exception or the response), the breaker as it leaves it, and its effects.
\<close>

text \<open>
  The \<^verbatim>\<open>for\<close> loop of \<^verbatim>\<open>callDUIXServiceWithToken\<close>, from attempt \<open>attempt\<close> on, with
  the statements that follow the loop; \<open>retries\<close> and \<open>base\<close> are the constants
  \<^verbatim>\<open>maxRetries\<close> and \<^verbatim>\<open>baseTimeout\<close> of the function. It returns the response, the
  breaker and the effects.
\<close>

function retry_loop ::
  "js_runtime \<Rightarrow> environment \<Rightarrow> network \<Rightarrow> executor_clock \<Rightarrow> string \<Rightarrow> nat \<Rightarrow> int
     \<Rightarrow> nat \<Rightarrow> circuit_breaker \<Rightarrow> effect list
     \<Rightarrow> js_value \<times> circuit_breaker \<times> effect list" where
  "retry_loop rt env net clk question retries base attempt cb trail =
     (if attempt \<le> retries then
        (let customAgent = createHTTPSAgent env ''duix_api'';
             trail1 = trail @ [Request attempt (base + int attempt * 2000) customAgent]
         in case axios_request (\<lambda>st. st < 500) (upstream net attempt) of
              Resolved st d \<Rightarrow>
                (let cb1 = updateCircuitBreaker True (updateTime clk) cb
                 in (Obj [(''session_id'', Str (''duix_session_'' @ string_of_int (sessionTime clk))),
                          (''data'', Obj
                             [(''text'', Str (''DUIX Avatar response to: '' @ [CHR 0x22] @ question
                                  @ [CHR 0x22])),
                              (''api_call_successful'', Bool (st = 200)),
                              (''api_status'', Number (Fin (of_int st))),
                              (''concurrent_info'', d),
                              (''real_api_response'', Bool True),
                              (''response_time_ms'',
                                 Number (js_sub (clock_number (finishTime clk))
                                           (clock_number (entryTime clk)))),
                              (''circuit_breaker_state'', Str (mode_name (state cb1))),
                              (''aws_region'', Str (or_default (AWS_REGION env) ''local''))])],
                     cb1, trail1 @ [BreakerUpdate True]))
            | Rejected error \<Rightarrow>
                (let errorCode = code_or_message error
                 in if attempt = retries then
                      (let cb1 = updateCircuitBreaker False (updateTime clk) cb
                       in (createFallbackResponse rt env clk cb1 question (entryTime clk)
                             (Obj [(''error'', Str ''DUIX API unavailable''),
                                   (''attempts'', Number (Fin (of_int (int retries)))),
                                   (''last_error'', Str errorCode),
                                   (''circuit_breaker_state'', Str (mode_name (state cb1)))]),
                           cb1, trail1 @ [BreakerUpdate False]))
                    else
                      (let backoffMs = min (2 ^ attempt * 1000 + jitter net attempt) 10000
                       in retry_loop rt env net clk question retries base (attempt + 1) cb
                            (trail1 @ [Sleep backoffMs]))))
      else
        (let cb1 = updateCircuitBreaker False (updateTime clk) cb
         in (createFallbackResponse rt env clk cb1 question (entryTime clk) Null,
             cb1, trail @ [BreakerUpdate False])))"
  by pat_completeness auto
termination
  by (relation "measure (\<lambda>(rt, env, net, clk, question, retries, base, attempt, cb, trail).
                           Suc retries - attempt)") auto

declare retry_loop.simps [simp del]

definition maxRetries :: "environment \<Rightarrow> nat" where
  "maxRetries env = (if IS_PRODUCTION env then 2 else 3)"

definition baseTimeout :: "environment \<Rightarrow> int" where
  "baseTimeout env = (if IS_PRODUCTION env then 15000 else 20000)"

definition callDUIXServiceWithToken ::
  "js_runtime \<Rightarrow> environment \<Rightarrow> network \<Rightarrow> executor_clock \<Rightarrow> string \<Rightarrow> js_value
     \<Rightarrow> circuit_breaker \<Rightarrow> (js_exception + js_value) \<times> circuit_breaker \<times> effect list" where
  "callDUIXServiceWithToken rt env net clk question clientToken cb =
     (let now = entryTime clk
      in if \<not> IS_PRODUCTION env \<and> \<not> is_string clientToken then (Inl TypeError, cb, [])
         else
           (let (attempt_allowed, cb0) = shouldAttemptDuixCall (checkTime clk) cb
            in if \<not> attempt_allowed
               then (Inr (createFallbackResponse rt env clk cb0 question now Null), cb0, [])
               else
                 (let (response, cb1, trail) =
                        retry_loop rt env net clk question (maxRetries env) (baseTimeout env) 1 cb0 []
                  in (Inr response, cb1, trail))))"

text \<open>A request that fails at the network level or comes back with a status of 500 or more.\<close>

definition attempt_fails :: "upstream_result \<Rightarrow> bool" where
  "attempt_fails r = (case r of HttpResponse st d \<Rightarrow> st \<ge> 500 | NetworkError e \<Rightarrow> True)"

text \<open>The requests among the effects, as (attempt number, timeout) pairs, and the failures recorded.\<close>

fun requests_of :: "effect list \<Rightarrow> (nat \<times> int) list" where
  "requests_of [] = []"
| "requests_of (Request k t a # es) = (k, t) # requests_of es"
| "requests_of (e # es) = requests_of es"

fun updates_of :: "effect list \<Rightarrow> bool list" where
  "updates_of [] = []"
| "updates_of (BreakerUpdate b # es) = b # updates_of es"
| "updates_of (e # es) = updates_of es"

section \<open>Sample inputs\<close>

text \<open>
  Concrete inputs for the closed instances below: a production and a development
  environment, a runtime (none of the instances converts a string to a number or a number to
  a string), the clock readings of one executor call and of one call of the latency handler,
  a breaker that opened ten seconds before that call, an upstream that times out on every
  request and one that answers 404, and a signing library that behaves as
  \<^verbatim>\<open>jsonwebtoken\<close> does on an empty key: it throws
  \<^verbatim>\<open>Error('secretOrPrivateKey must have a value')\<close>.
\<close>

definition prod_env :: environment where
  "prod_env = \<lparr>IS_PRODUCTION = True, DISABLE_SSL_VALIDATION = None, AWS_REGION = Some ''us-east-1'',
                ENV_DUIX_APP_ID = Some ''1377185422953811968'', ENV_DUIX_APP_KEY = Some ''secret'',
                ENV_TOKEN_EXPIRY = None, NODE_VERSION = ''v18.19.0''\<rparr>"

definition dev_env :: environment where
  "dev_env = \<lparr>IS_PRODUCTION = False, DISABLE_SSL_VALIDATION = None, AWS_REGION = None,
               ENV_DUIX_APP_ID = None, ENV_DUIX_APP_KEY = None,
               ENV_TOKEN_EXPIRY = None, NODE_VERSION = ''v18.19.0''\<rparr>"

definition sample_runtime :: js_runtime where
  "sample_runtime = \<lparr>stringToNumber = (\<lambda>s. NaN), numberToString = (\<lambda>n. []),
                      toISOString = (\<lambda>t. ''2023-11-14T22:13:20.000Z'')\<rparr>"

definition sample_clock :: executor_clock where
  "sample_clock = \<lparr>entryTime = 1700000000000, checkTime = 1700000000000,
                    updateTime = 1700000000040, sessionTime = 1700000000041,
                    finishTime = 1700000000042, timestampTime = 1700000000042\<rparr>"

definition sample_handler_clock :: handler_clock where
  "sample_handler_clock = \<lparr>serverReceiveTime = 1700000000021, serverProcessTime = 1700000000050,
                            stampTime = 1700000000050, errorTime = 1700000000051,
                            errorStampTime = 1700000000051\<rparr>"

definition open_breaker :: circuit_breaker where
  "open_breaker = \<lparr>failures = 5, lastFailureTime = 1699999990000, state = OPEN,
                    failureThreshold = 5, recoveryTimeoutMs = 60000\<rparr>"

definition timeout_network :: network where
  "timeout_network =
     \<lparr>upstream = (\<lambda>k. NetworkError \<lparr>code = Some ''ETIMEDOUT'', message = ''timeout exceeded''\<rparr>),
      jitter = (\<lambda>k. 500)\<rparr>"

definition not_found_network :: network where
  "not_found_network =
     \<lparr>upstream = (\<lambda>k. HttpResponse 404 (Obj [(''code'', Str ''404'')])),
      jitter = (\<lambda>k. 500)\<rparr>"

definition sample_request :: "(string \<times> js_value) list \<Rightarrow> request" where
  "sample_request b = \<lparr>body = b, secure = True, user_agent_header = Some ''curl/8.4.0'',
                         ip = Some ''203.0.113.7'', remoteAddress = Some ''203.0.113.7''\<rparr>"

definition sample_jwt_sign :: "jwt_payload \<Rightarrow> string \<Rightarrow> sign_options \<Rightarrow> js_exception + string" where
  "sample_jwt_sign payload key opts =
     (if key = [] then Inl (Error ''secretOrPrivateKey must have a value'')
      else Inr ''header.payload.signature'')"

section \<open>Properties of the circuit breaker\<close>

lemma five_failures_open:
  "record_failures [t1, t2, t3, t4, t5] duixApiCircuitBreaker =
     \<lparr>failures = 5, lastFailureTime = t5, state = OPEN,
      failureThreshold = 5, recoveryTimeoutMs = 60000\<rparr>"
  by (simp add: updateCircuitBreaker_def duixApiCircuitBreaker_def Let_def)

lemma poll_open_within_timeout:
  assumes "state cb = OPEN"
    and "\<forall>t \<in> set ts. t - lastFailureTime cb \<le> recoveryTimeoutMs cb"
  shows "poll_breaker ts cb = (replicate (length ts) False, cb)"
  using assms by (induction ts) (simp_all add: shouldAttemptDuixCall_def)

lemma poll_breaker_append:
  "poll_breaker (ts @ us) cb =
     (let (oks, cb1) = poll_breaker ts cb; (oks', cb2) = poll_breaker us cb1
      in (oks @ oks', cb2))"
  by (induction ts arbitrary: cb) (simp_all add: split_def Let_def)

text \<open>
  C1. From the initial breaker, five recorded failures (at readings \<open>t1\<close> .. \<open>t5\<close>, no
  success in between) open it: every \<^verbatim>\<open>shouldAttemptDuixCall()\<close> made while no more than
  60000 ms have passed since the last failure \<open>t5\<close> answers false and leaves the breaker as it
  is; the first call made later than that answers true and moves the breaker to HALF_OPEN; one
  \<^verbatim>\<open>updateCircuitBreaker(true)\<close> after it sets the failure count to 0 and the mode to CLOSED.
\<close>

theorem circuit_breaker_open_then_recover:
  assumes within: "\<forall>t \<in> set ts. t - t5 \<le> 60000"
    and elapsed: "now - t5 > 60000"
  shows "\<exists>cb'. poll_breaker (ts @ [now]) (record_failures [t1, t2, t3, t4, t5] duixApiCircuitBreaker)
                 = (replicate (length ts) False @ [True], cb')
           \<and> state cb' = HALF_OPEN
           \<and> failures cb' = 5
           \<and> failures (updateCircuitBreaker True t cb') = 0
           \<and> state (updateCircuitBreaker True t cb') = CLOSED"
proof -
  define cb where "cb = record_failures [t1, t2, t3, t4, t5] duixApiCircuitBreaker"
  have cb: "cb = \<lparr>failures = 5, lastFailureTime = t5, state = OPEN,
                     failureThreshold = 5, recoveryTimeoutMs = 60000\<rparr>"
    unfolding cb_def by (rule five_failures_open)
  have closed: "poll_breaker ts cb = (replicate (length ts) False, cb)"
    using within by (intro poll_open_within_timeout) (simp_all add: cb)
  have probe: "shouldAttemptDuixCall now cb = (True, cb\<lparr>state := HALF_OPEN\<rparr>)"
    using elapsed by (simp add: cb shouldAttemptDuixCall_def)
  have "poll_breaker (ts @ [now]) cb
          = (replicate (length ts) False @ [True], cb\<lparr>state := HALF_OPEN\<rparr>)"
    by (simp add: poll_breaker_append closed probe)
  moreover have "failures (cb\<lparr>state := HALF_OPEN\<rparr>) = 5"
    by (simp add: cb)
  moreover have "failures (updateCircuitBreaker True t (cb\<lparr>state := HALF_OPEN\<rparr>)) = 0"
    and "state (updateCircuitBreaker True t (cb\<lparr>state := HALF_OPEN\<rparr>)) = CLOSED"
    by (simp_all add: updateCircuitBreaker_def)
  ultimately have "\<exists>cb'. poll_breaker (ts @ [now]) cb = (replicate (length ts) False @ [True], cb')
           \<and> state cb' = HALF_OPEN
           \<and> failures cb' = 5
           \<and> failures (updateCircuitBreaker True t cb') = 0
           \<and> state (updateCircuitBreaker True t cb') = CLOSED"
    by (intro exI [of _ "cb\<lparr>state := HALF_OPEN\<rparr>"]) simp
  then show ?thesis unfolding cb_def .
qed

theorem circuit_breaker_open_then_recover_witness:
  "(5000 :: int) - 5000 \<le> 60000 \<and> (5001 :: int) - 5000 \<le> 60000 \<and> (65000 :: int) - 5000 \<le> 60000
   \<and> (65001 :: int) - 5000 > 60000
   \<and> (\<exists>cb'. poll_breaker ([5000, 5001, 65000] @ [65001])
                  (record_failures [1000, 2000, 3000, 4000, 5000] duixApiCircuitBreaker)
                 = (replicate (length [5000, 5001, 65000 :: int]) False @ [True], cb')
           \<and> state cb' = HALF_OPEN
           \<and> failures cb' = 5
           \<and> failures (updateCircuitBreaker True 65002 cb') = 0
           \<and> state (updateCircuitBreaker True 65002 cb') = CLOSED)"
proof -
  have h1: "\<forall>t \<in> set [5000, 5001, 65000 :: int]. t - 5000 \<le> 60000" by simp
  have h2: "(65001 :: int) - 5000 > 60000" by simp
  show ?thesis
    using circuit_breaker_open_then_recover [OF h1 h2, of 1000 2000 3000 4000 65002]
    by simp
qed

section \<open>Properties of the connection profile\<close>

lemma take6: "take 6 duix_cipher_suites = alb_cipher_suites"
  by (simp add: duix_cipher_suites_def alb_cipher_suites_def)

lemma drop6: "drop 6 duix_cipher_suites =
     [''AES256-SHA256'', ''AES128-SHA256'',
      ''HIGH:!aNULL:!eNULL:!EXPORT:!DES:!RC4:!MD5:!PSK:!SRP:!CAMELLIA'']"
  by (simp add: duix_cipher_suites_def)

text \<open>
  C7 (as amended). A profile built for the upstream purpose (\<^verbatim>\<open>'duix_api'\<close>) switches
  certificate validation off in every environment: \<^verbatim>\<open>rejectUnauthorized\<close> is false and the
  identity check accepts every peer. It pins \<^verbatim>\<open>secureProtocol\<close> to
  \<^verbatim>\<open>TLSv1_2_method\<close> as the default profile does, but leaves \<^verbatim>\<open>minVersion\<close> and
  \<^verbatim>\<open>maxVersion\<close> unset where the default profile has TLSv1.2 and TLSv1.3, and its cipher
  list is the upstream list: the six suites of the default list followed by three more entries.
\<close>

theorem upstream_profile_relaxed:
  "rejectUnauthorized (createHTTPSAgent env ''duix_api'') = False
   \<and> (\<forall>r. checkServerIdentity (createHTTPSAgent env ''duix_api'') r = None)
   \<and> secureProtocol (createHTTPSAgent env ''duix_api'') = ''TLSv1_2_method''
   \<and> secureProtocol (createHTTPSAgent env ''production'') = ''TLSv1_2_method''
   \<and> minVersion (createHTTPSAgent env ''duix_api'') = None
   \<and> maxVersion (createHTTPSAgent env ''duix_api'') = None
   \<and> minVersion (createHTTPSAgent env ''production'') = Some ''TLSv1.2''
   \<and> maxVersion (createHTTPSAgent env ''production'') = Some ''TLSv1.3''
   \<and> ciphers (createHTTPSAgent env ''duix_api'') = join '':'' duix_cipher_suites
   \<and> ciphers (createHTTPSAgent env ''production'') = join '':'' alb_cipher_suites
   \<and> duix_cipher_suites = alb_cipher_suites @
        [''AES256-SHA256'', ''AES128-SHA256'',
         ''HIGH:!aNULL:!eNULL:!EXPORT:!DES:!RC4:!MD5:!PSK:!SRP:!CAMELLIA'']
   \<and> honorCipherOrder (createHTTPSAgent env ''duix_api'')"
proof -
  have "duix_cipher_suites = take 6 duix_cipher_suites @ drop 6 duix_cipher_suites"
    by simp
  then have split: "duix_cipher_suites = alb_cipher_suites @
        [''AES256-SHA256'', ''AES128-SHA256'',
         ''HIGH:!aNULL:!eNULL:!EXPORT:!DES:!RC4:!MD5:!PSK:!SRP:!CAMELLIA'']"
    unfolding take6 drop6 .
  have "rejectUnauthorized (createHTTPSAgent env ''duix_api'') = False
   \<and> (\<forall>r. checkServerIdentity (createHTTPSAgent env ''duix_api'') r = None)
   \<and> secureProtocol (createHTTPSAgent env ''duix_api'') = ''TLSv1_2_method''
   \<and> secureProtocol (createHTTPSAgent env ''production'') = ''TLSv1_2_method''
   \<and> minVersion (createHTTPSAgent env ''duix_api'') = None
   \<and> maxVersion (createHTTPSAgent env ''duix_api'') = None
   \<and> minVersion (createHTTPSAgent env ''production'') = Some ''TLSv1.2''
   \<and> maxVersion (createHTTPSAgent env ''production'') = Some ''TLSv1.3''
   \<and> ciphers (createHTTPSAgent env ''duix_api'') = join '':'' duix_cipher_suites
   \<and> ciphers (createHTTPSAgent env ''production'') = join '':'' alb_cipher_suites
   \<and> honorCipherOrder (createHTTPSAgent env ''duix_api'')"
    by (simp add: createHTTPSAgent_def shouldValidateSSL_def Let_def)
  with split show ?thesis by blast
qed

text \<open>
  C7 as stated fails: under production the upstream profile has no protocol-version floor or
  ceiling where the default profile has TLSv1.2 and TLSv1.3, and the two cipher lists differ.
\<close>

theorem upstream_profile_tls_counterexample:
  "minVersion (createHTTPSAgent prod_env ''duix_api'') = None
   \<and> minVersion (createHTTPSAgent prod_env ''production'') = Some ''TLSv1.2''
   \<and> maxVersion (createHTTPSAgent prod_env ''duix_api'') = None
   \<and> maxVersion (createHTTPSAgent prod_env ''production'') = Some ''TLSv1.3''
   \<and> ciphers (createHTTPSAgent prod_env ''duix_api'')
       \<noteq> ciphers (createHTTPSAgent prod_env ''production'')"
proof -
  have "join '':'' duix_cipher_suites \<noteq> join '':'' alb_cipher_suites"
    by (simp add: duix_cipher_suites_def alb_cipher_suites_def)
  then show ?thesis
    by (simp add: createHTTPSAgent_def shouldValidateSSL_def Let_def)
qed

text \<open>
  C8 (as amended). Every profile, whatever the strategy, enables keep-alive with a bounded
  socket pool: 50 sockets (20 free) under production, 10 (5 free) otherwise. The socket
  timeout is strictly smaller under production (20000 ms against 30000 ms); the pool is
  strictly larger there.
\<close>

theorem pool_sizing_by_flag:
  "keepAlive (createHTTPSAgent env strategy)
   \<and> maxSockets (createHTTPSAgent (env\<lparr>IS_PRODUCTION := True\<rparr>) strategy) = 50
   \<and> maxSockets (createHTTPSAgent (env'\<lparr>IS_PRODUCTION := False\<rparr>) strategy') = 10
   \<and> maxFreeSockets (createHTTPSAgent (env\<lparr>IS_PRODUCTION := True\<rparr>) strategy) = 20
   \<and> maxFreeSockets (createHTTPSAgent (env'\<lparr>IS_PRODUCTION := False\<rparr>) strategy') = 5
   \<and> timeout (createHTTPSAgent (env\<lparr>IS_PRODUCTION := True\<rparr>) strategy) = 20000
   \<and> timeout (createHTTPSAgent (env'\<lparr>IS_PRODUCTION := False\<rparr>) strategy') = 30000
   \<and> timeout (createHTTPSAgent (env\<lparr>IS_PRODUCTION := True\<rparr>) strategy)
       < timeout (createHTTPSAgent (env'\<lparr>IS_PRODUCTION := False\<rparr>) strategy')
   \<and> maxSockets (createHTTPSAgent (env\<lparr>IS_PRODUCTION := True\<rparr>) strategy)
       > maxSockets (createHTTPSAgent (env'\<lparr>IS_PRODUCTION := False\<rparr>) strategy')
   \<and> maxFreeSockets (createHTTPSAgent (env\<lparr>IS_PRODUCTION := True\<rparr>) strategy)
       > maxFreeSockets (createHTTPSAgent (env'\<lparr>IS_PRODUCTION := False\<rparr>) strategy')"
  by (simp add: createHTTPSAgent_def Let_def)

text \<open>
  C8 as stated fails: the production pool (50 sockets) is not smaller than the development
  pool (10 sockets).
\<close>

theorem pool_size_counterexample:
  "maxSockets (createHTTPSAgent prod_env ''duix_api'') = 50
   \<and> maxSockets (createHTTPSAgent dev_env ''duix_api'') = 10
   \<and> \<not> maxSockets (createHTTPSAgent prod_env ''duix_api'')
         < maxSockets (createHTTPSAgent dev_env ''duix_api'')"
  by (simp add: createHTTPSAgent_def Let_def prod_env_def dev_env_def)

section \<open>Properties of the number model\<close>

lemma bits_pos: "0 < n \<Longrightarrow> bits n = Suc (bits (n div 2))"
  by (subst bits.simps) simp

lemma bits_zero: "bits 0 = 0"
  by (subst bits.simps) simp

lemma bits_bounds: "0 < n \<Longrightarrow> 2 ^ (bits n - 1) \<le> n \<and> n < 2 ^ bits n"
proof (induction n rule: less_induct)
  case (less n)
  show ?case
  proof (cases "n div 2 = 0")
    case True
    with less.prems have "n = 1" by (simp add: div_eq_0_iff) 
    then show ?thesis
      by (simp add: bits_pos bits_zero)
  next
    case False
    then have pos: "0 < n div 2" by simp
    have lt: "n div 2 < n" using less.prems by simp
    from less.IH [OF lt pos]
    have lo: "2 ^ (bits (n div 2) - 1) \<le> n div 2" and hi: "n div 2 < 2 ^ bits (n div 2)"
      by simp_all
    have b: "bits n = Suc (bits (n div 2))"
      using less.prems by (rule bits_pos)
    obtain k where k: "bits (n div 2) = Suc k"
      using bits_pos [OF pos] by simp
    from lo have "2 * 2 ^ k \<le> 2 * (n div 2)" unfolding k by simp
    then have lo': "2 ^ Suc k \<le> n" by (simp; linarith)
    from hi have "Suc (n div 2) \<le> 2 ^ Suc k" unfolding k by simp
    then have "2 * Suc (n div 2) \<le> 2 * 2 ^ Suc k" by simp
    then have hi': "n < 2 ^ Suc (Suc k)" by (simp; linarith)
    from lo' hi' show ?thesis unfolding b k by simp
  qed
qed

lemma bits_le: "n < 2 ^ k \<Longrightarrow> bits n \<le> k"
proof (cases "n = 0")
  case True
  then show ?thesis by (simp add: bits_zero)
next
  case False
  assume hi: "n < 2 ^ k"
  from False bits_bounds [of n] have lo: "2 ^ (bits n - 1) \<le> n" by simp
  from lo hi have "(2::nat) ^ (bits n - 1) < 2 ^ k" by (rule le_less_trans)
  then have "bits n - 1 < k" by simp
  then show ?thesis by simp
qed

lemma bits_eq: "2 ^ k \<le> n \<Longrightarrow> n < 2 ^ Suc k \<Longrightarrow> bits n = Suc k"
proof -
  assume lo: "2 ^ k \<le> n" and hi: "n < 2 ^ Suc k"
  have pos: "0 < n" using lo by (cases "n = 0") simp_all
  from bits_le [OF hi] have le: "bits n \<le> Suc k" .
  from bits_bounds [OF pos] have "n < 2 ^ bits n" by simp
  with lo have "(2::nat) ^ k < 2 ^ bits n" by (rule le_less_trans)
  then have "k < bits n" by simp
  with le show ?thesis by simp
qed

lemma rhe_of_int: "round_half_even (of_int k) = k"
  by (simp add: round_half_even_def)

lemma ilog2_of_int:
  assumes "n \<noteq> 0"
  shows "ilog2 \<bar>of_int n\<bar> = int (bits (nat \<bar>n\<bar>)) - 1"
proof -
  from assms have "1 \<le> \<bar>n\<bar>" by simp
  then have "(of_int 1 :: rat) \<le> of_int \<bar>n\<bar>" by (simp only: of_int_le_iff)
  then have one: "(1::rat) \<le> \<bar>of_int n\<bar>" by simp
  have "\<lfloor>\<bar>of_int n :: rat\<bar>\<rfloor> = \<bar>n\<bar>"
    by (metis floor_of_int of_int_abs)
  with one show ?thesis by (simp add: ilog2_def)
qed

lemma fl_scaled_int:
  assumes "x \<noteq> 0" and "max (ilog2 \<bar>x\<bar> - 52) (- 1074) = s" and "x / 2 powi s = of_int m"
  shows "fl x = x"
proof -
  have "fl x = of_int (round_half_even (x / 2 powi s)) * 2 powi s"
    using assms(1,2) by (simp add: fl_def Let_def)
  also have "\<dots> = (x / 2 powi s) * 2 powi s"
    unfolding assms(3) rhe_of_int ..
  also have "\<dots> = x" by simp
  finally show ?thesis .
qed

lemma fl_int_exact:
  assumes "\<bar>n\<bar> \<le> 2 ^ 53"
  shows "fl (of_int n) = of_int n"
proof (cases "n = 0")
  case True
  then show ?thesis by (simp add: fl_def)
next
  case False
  then have x: "(of_int n :: rat) \<noteq> 0" by simp
  have log: "ilog2 \<bar>of_int n\<bar> = int (bits (nat \<bar>n\<bar>)) - 1"
    using False by (rule ilog2_of_int)
  show ?thesis
  proof (cases "\<bar>n\<bar> < 2 ^ 53")
    case True
    then have "nat \<bar>n\<bar> < 2 ^ 53" by (simp add: nat_less_iff)
    then have le: "bits (nat \<bar>n\<bar>) \<le> 53" by (rule bits_le)
    define k where "k = 53 - bits (nat \<bar>n\<bar>)"
    have s: "max (ilog2 \<bar>of_int n :: rat\<bar> - 52) (- 1074) = - int k"
      unfolding log k_def using le by simp
    have "(of_int n :: rat) / 2 powi (- int k) = of_int (n * 2 ^ k)"
      by (simp add: power_int_minus divide_inverse)
    with x s show ?thesis by (rule fl_scaled_int)
  next
    case False
    with assms have eq: "\<bar>n\<bar> = 2 ^ 53" by simp
    then have "nat \<bar>n\<bar> = 2 ^ 53" by simp
    then have "bits (nat \<bar>n\<bar>) = Suc 53"
      by (intro bits_eq) simp_all
    then have s: "max (ilog2 \<bar>of_int n :: rat\<bar> - 52) (- 1074) = 1"
      unfolding log by simp
    from eq have "even n" by (metis even_abs_add_iff even_add even_numeral even_power zero_less_numeral)
    then obtain h where h: "n = 2 * h" by (elim evenE)
    have "(of_int n :: rat) / 2 powi 1 = of_int h"
      unfolding h by simp
    with x s show ?thesis by (rule fl_scaled_int)
  qed
qed

lemma rhe_half: "round_half_even (of_int h + 1 / 2) = (if even h then h else h + 1)"
proof -
  have "\<lfloor>of_int h + (1 / 2 :: rat)\<rfloor> = h" by (simp add: floor_unique)
  then show ?thesis by (simp add: round_half_even_def Let_def)
qed

lemma fl_int_54:
  assumes lo: "2 ^ 53 \<le> \<bar>n\<bar>" and hi: "\<bar>n\<bar> < 2 ^ 54"
  shows "fl (of_int n) = of_int (if even n then n else if even (n div 2) then n - 1 else n + 1)"
proof -
  from lo have nz: "n \<noteq> 0" by auto
  then have x: "(of_int n :: rat) \<noteq> 0" by simp
  have log: "ilog2 \<bar>of_int n\<bar> = int (bits (nat \<bar>n\<bar>)) - 1"
    using nz by (rule ilog2_of_int)
  from lo have "2 ^ 53 \<le> nat \<bar>n\<bar>" by (simp add: le_nat_iff)
  moreover from hi have "nat \<bar>n\<bar> < 2 ^ Suc 53" by (simp add: nat_less_iff)
  ultimately have "bits (nat \<bar>n\<bar>) = Suc 53" by (rule bits_eq)
  then have s: "max (ilog2 \<bar>of_int n :: rat\<bar> - 52) (- 1074) = 1"
    unfolding log by simp
  have fl: "fl (of_int n) = of_int (round_half_even (of_int n / 2)) * 2"
    using x s by (simp add: fl_def Let_def)
  show ?thesis
  proof (cases "even n")
    case True
    then obtain h where h: "n = 2 * h" by (elim evenE)
    have "(of_int n :: rat) / 2 = of_int h" unfolding h by simp
    then show ?thesis unfolding fl using True h by (simp add: rhe_of_int)
  next
    case False
    then obtain h where h: "n = 2 * h + 1" by (elim oddE)
    have half: "(of_int n :: rat) / 2 = of_int h + 1 / 2" unfolding h by (simp add: field_simps)
    have d: "n div 2 = h" unfolding h by simp
    show ?thesis unfolding fl half rhe_half d using False h by simp
  qed
qed

lemma fl_int_54_bound:
  assumes lo: "2 ^ 53 \<le> \<bar>n\<bar>" and hi: "\<bar>n\<bar> < 2 ^ 54"
  shows "\<bar>fl (of_int n)\<bar> \<le> 2 ^ 54"
proof -
  have "\<bar>if even n then n else if even (n div 2) then n - 1 else n + 1\<bar> \<le> 2 ^ 54"
    using hi by auto
  then have "of_int \<bar>if even n then n else if even (n div 2) then n - 1 else n + 1\<bar>
               \<le> (of_int (2 ^ 54) :: rat)"
    by (simp only: of_int_le_iff)
  then show ?thesis
    unfolding fl_int_54 [OF lo hi] by simp
qed

lemma round_result_int_54:
  assumes lo: "2 ^ 53 \<le> \<bar>n\<bar>" and hi: "\<bar>n\<bar> < 2 ^ 54"
  shows "round_result (of_int n)
           = Fin (of_int (if even n then n else if even (n div 2) then n - 1 else n + 1))"
proof -
  have "(2::rat) ^ 54 < 2 ^ 1024" by simp
  with fl_int_54_bound [OF lo hi] have "\<bar>fl (of_int n)\<bar> < 2 ^ 1024"
    by (rule le_less_trans)
  then have "\<not> 2 ^ 1024 \<le> fl (of_int n)" and "\<not> fl (of_int n) \<le> - (2 ^ 1024)"
    by (simp_all add: abs_less_iff)
  then show ?thesis
    unfolding round_result_def by (simp add: Let_def fl_int_54 [OF lo hi])
qed

lemma round_result_int_exact:
  assumes "\<bar>n\<bar> \<le> 2 ^ 53"
  shows "round_result (of_int n) = Fin (of_int n)"
proof -
  from assms have "of_int \<bar>n\<bar> \<le> (of_int (2 ^ 53) :: rat)" by (simp only: of_int_le_iff)
  then have "\<bar>of_int n :: rat\<bar> \<le> 2 ^ 53" by simp
  moreover have "(2::rat) ^ 53 < 2 ^ 1024" by simp
  ultimately have "\<bar>of_int n :: rat\<bar> < 2 ^ 1024" by (rule le_less_trans)
  then show ?thesis
    unfolding round_result_def fl_int_exact [OF assms] by (simp add: Let_def abs_less_iff)
qed

lemma representable_int: "\<bar>n\<bar> \<le> 2 ^ 53 \<Longrightarrow> representable (of_int n)"
  by (simp add: representable_def round_result_int_exact)

lemma round_result_numeral:
  "(numeral k :: int) \<le> 2 ^ 53 \<Longrightarrow> round_result (numeral k) = Fin (numeral k)"
  using round_result_int_exact [of "numeral k"] by simp

lemma round_result_numeral_54:
  "2 ^ 53 \<le> (numeral k :: int) \<Longrightarrow> (numeral k :: int) < 2 ^ 54 \<Longrightarrow>
     round_result (numeral k)
       = Fin (of_int (if even (numeral k :: int) then numeral k
                      else if even (numeral k div 2 :: int) then numeral k - 1
                      else numeral k + 1))"
  using round_result_int_54 [of "numeral k"] by simp

lemma round_result_neq_NaN: "round_result x \<noteq> NaN"
  by (simp add: round_result_def Let_def)

lemma js_sub_NaN: "(js_sub (Fin a) n = NaN) = (n = NaN)"
  by (cases n) (simp_all add: round_result_neq_NaN)

section \<open>Properties of the token signer\<close>


lemma signer_range_error:
  assumes "\<not> IS_PRODUCTION env"
    and "\<not> (valid_date (clock_number now)
               \<and> valid_date (js_mul (js_add (clock_number (now div 1000)) lifetime) (Fin 1000)))"
  shows "createDUIXToken jwt_sign env now a k lifetime = Inl RangeError"
  using assms by (auto simp: createDUIXToken_def Let_def)



lemma loaded_key_nonempty:
  "load_credentials env = Loaded cfg \<Longrightarrow> DUIX_APP_KEY cfg \<noteq> []"
  by (auto simp: load_credentials_def or_default_def Let_def split: if_splits option.splits)




text \<open>
  C6 (as amended). The signer has no check of its own on the secret. With a signing library
  that refuses an empty key as \<^verbatim>\<open>jsonwebtoken\<close> does, by throwing
  \<^verbatim>\<open>Error('secretOrPrivateKey must have a value')\<close>, a call with an empty secret fails and
  produces no token: it throws that \<^verbatim>\<open>Error\<close>, or, outside production with an invalid
  logged date, a \<^verbatim>\<open>RangeError\<close> before the library is reached. The exception is a plain
  \<^verbatim>\<open>Error\<close> or a \<^verbatim>\<open>RangeError\<close>, never a configuration error of its own class.
\<close>

theorem empty_secret_fails:
  assumes library: "\<forall>payload opts.
      jwt_sign payload [] opts = Inl (Error ''secretOrPrivateKey must have a value'')"
  shows "createDUIXToken jwt_sign env now a [] lifetime
           = (if \<not> IS_PRODUCTION env
                 \<and> \<not> (valid_date (clock_number now)
                      \<and> valid_date (js_mul (js_add (clock_number (now div 1000)) lifetime)
                            (Fin 1000)))
              then Inl RangeError
              else Inl (Error ''secretOrPrivateKey must have a value''))
    \<and> (\<forall>token. createDUIXToken jwt_sign env now a [] lifetime \<noteq> Inr token)
    \<and> (\<exists>e. createDUIXToken jwt_sign env now a [] lifetime = Inl e
            \<and> (error_name e = ''Error'' \<or> error_name e = ''RangeError''))"
  using library by (auto simp: createDUIXToken_def Let_def error_name_def)

theorem empty_secret_fails_witness:
  "(\<forall>payload opts.
      sample_jwt_sign payload [] opts = Inl (Error ''secretOrPrivateKey must have a value''))
   \<and> createDUIXToken sample_jwt_sign prod_env 1700000000000 ''1377185422953811968'' []
        (Fin 1800) = Inl (Error ''secretOrPrivateKey must have a value'')"
proof -
  have library: "\<forall>payload opts.
      sample_jwt_sign payload [] opts = Inl (Error ''secretOrPrivateKey must have a value'')"
    by (simp add: sample_jwt_sign_def)
  note inst = empty_secret_fails [where jwt_sign = sample_jwt_sign and env = prod_env
      and now = 1700000000000 and a = "''1377185422953811968''" and lifetime = "Fin 1800"]
  from inst library
  have "createDUIXToken sample_jwt_sign prod_env 1700000000000 ''1377185422953811968'' []
        (Fin 1800) = Inl (Error ''secretOrPrivateKey must have a value'')"
    by (simp add: prod_env_def)
  with library show ?thesis by blast
qed

text \<open>
  C6 as stated fails on the class of the failure: with the empty secret the call under
  production ends in the library's plain \<^verbatim>\<open>Error\<close>, and outside production at the
  lifetime \<open>10\<^sup>1\<^sup>3\<close> in a \<^verbatim>\<open>RangeError\<close>; neither is a \<^verbatim>\<open>ConfigurationError\<close>,
  a class the source does not define.
\<close>

theorem empty_secret_counterexample:
  "createDUIXToken sample_jwt_sign prod_env 1700000000000 ''1377185422953811968'' [] (Fin 1800)
     = Inl (Error ''secretOrPrivateKey must have a value'')
   \<and> error_name (Error ''secretOrPrivateKey must have a value'') = ''Error''
   \<and> createDUIXToken sample_jwt_sign dev_env 1700000000000 ''1377185422953811968'' []
        (Fin 10000000000000) = Inl RangeError"
proof -
  have "js_mul (js_add (clock_number (1700000000000 div 1000)) (Fin 10000000000000)) (Fin 1000)
          = Fin 10001700000000000"
    by (simp add: clock_number_def round_result_numeral round_result_numeral_54)
  then have "\<not> valid_date (js_mul (js_add (clock_number (1700000000000 div 1000))
                 (Fin 10000000000000)) (Fin 1000))"
    by (simp add: valid_date_def)
  then have d: "createDUIXToken sample_jwt_sign dev_env 1700000000000 ''1377185422953811968''
        [] (Fin 10000000000000) = Inl RangeError"
    by (intro signer_range_error) (simp_all add: dev_env_def)
  have "createDUIXToken sample_jwt_sign prod_env 1700000000000 ''1377185422953811968'' []
          (Fin 1800) = Inl (Error ''secretOrPrivateKey must have a value'')"
    by (simp add: createDUIXToken_def Let_def prod_env_def sample_jwt_sign_def)
  with d show ?thesis by (simp add: error_name_def)
qed

section \<open>Properties of the latency route\<close>

lemma measure_latency_answers:
  assumes "to_number rt (get_prop (body req) ''clientSendTime'') = Inr n"
  shows "status (measure_latency rt env clk req) = 200"
    and "js_get (json (measure_latency rt env clk req)) ''success'' = Bool True"
    and "measurement (measure_latency rt env clk req) ''networkLatency''
           = Number (js_sub (clock_number (serverReceiveTime clk)) n)"
    and "measurement (measure_latency rt env clk req) ''serverProcessingTime''
           = Number (js_sub (clock_number (serverProcessTime clk))
                       (clock_number (serverReceiveTime clk)))"
    and "measurement (measure_latency rt env clk req) ''totalRoundTrip''
           = Number (js_sub (clock_number (serverProcessTime clk)) n)"
  using assms by (simp_all add: measure_latency_def measurement_def js_get_def Let_def)

lemma measure_latency_throws:
  assumes "to_number rt (get_prop (body req) ''clientSendTime'') = Inl e"
  shows "status (measure_latency rt env clk req) = 500"
    and "js_get (json (measure_latency rt env clk req)) ''success'' = Bool False"
    and "js_get (json (measure_latency rt env clk req)) ''error''
           = Str ''Latency measurement failed''"
    and "measurement (measure_latency rt env clk req) ''networkLatency'' = Undefined"
    and "measurement (measure_latency rt env clk req) ''totalRoundTrip'' = Undefined"
  using assms by (simp_all add: measure_latency_def measurement_def js_get_def Let_def)

text \<open>
  C9 (as amended). For a request whose \<^verbatim>\<open>clientSendTime\<close> is a finite number the
  handler answers 200 with \<^verbatim>\<open>networkLatency\<close>, \<^verbatim>\<open>serverProcessingTime\<close> and
  \<^verbatim>\<open>totalRoundTrip\<close> the double differences
  \<open>serverReceiveTime - clientSendTime\<close>, \<open>serverProcessTime - serverReceiveTime\<close> and
  \<open>serverProcessTime - clientSendTime\<close>. When the three differences are exactly
  representable, as they are for an integer \<^verbatim>\<open>clientSendTime\<close> with the three of magnitude
  at most \<open>2\<^sup>5\<^sup>3\<close>, the measurements are the exact differences and
  \<^verbatim>\<open>networkLatency + serverProcessingTime == totalRoundTrip\<close> holds.
\<close>

theorem latency_identity:
  assumes numeric: "get_prop (body req) ''clientSendTime'' = Number (Fin c)"
  shows "status (measure_latency rt env clk req) = 200
    \<and> measurement (measure_latency rt env clk req) ''networkLatency''
         = Number (js_sub (clock_number (serverReceiveTime clk)) (Fin c))
    \<and> measurement (measure_latency rt env clk req) ''serverProcessingTime''
         = Number (js_sub (clock_number (serverProcessTime clk))
                     (clock_number (serverReceiveTime clk)))
    \<and> measurement (measure_latency rt env clk req) ''totalRoundTrip''
         = Number (js_sub (clock_number (serverProcessTime clk)) (Fin c))
    \<and> (representable (of_int (serverReceiveTime clk) - c)
        \<and> representable (of_int (serverProcessTime clk) - of_int (serverReceiveTime clk))
        \<and> representable (of_int (serverProcessTime clk) - c) \<longrightarrow>
          measurement (measure_latency rt env clk req) ''networkLatency''
            = Number (Fin (of_int (serverReceiveTime clk) - c))
          \<and> measurement (measure_latency rt env clk req) ''serverProcessingTime''
            = Number (Fin (of_int (serverProcessTime clk) - of_int (serverReceiveTime clk)))
          \<and> measurement (measure_latency rt env clk req) ''totalRoundTrip''
            = Number (Fin (of_int (serverProcessTime clk) - c))
          \<and> js_equals
               (js_add (Fin (of_int (serverReceiveTime clk) - c))
                  (Fin (of_int (serverProcessTime clk) - of_int (serverReceiveTime clk))))
               (Fin (of_int (serverProcessTime clk) - c)))
    \<and> (\<forall>sent. c = of_int sent
          \<and> \<bar>serverReceiveTime clk - sent\<bar> \<le> 2 ^ 53
          \<and> \<bar>serverProcessTime clk - serverReceiveTime clk\<bar> \<le> 2 ^ 53
          \<and> \<bar>serverProcessTime clk - sent\<bar> \<le> 2 ^ 53 \<longrightarrow>
          measurement (measure_latency rt env clk req) ''networkLatency''
            = Number (Fin (of_int (serverReceiveTime clk - sent)))
          \<and> measurement (measure_latency rt env clk req) ''serverProcessingTime''
            = Number (Fin (of_int (serverProcessTime clk - serverReceiveTime clk)))
          \<and> measurement (measure_latency rt env clk req) ''totalRoundTrip''
            = Number (Fin (of_int (serverProcessTime clk - sent)))
          \<and> js_equals
               (js_add (Fin (of_int (serverReceiveTime clk - sent)))
                  (Fin (of_int (serverProcessTime clk - serverReceiveTime clk))))
               (Fin (of_int (serverProcessTime clk - sent))))"
proof -
  define r where "r = serverReceiveTime clk"
  define p where "p = serverProcessTime clk"
  define res where "res = measure_latency rt env clk req"
  have conv: "to_number rt (get_prop (body req) ''clientSendTime'') = Inr (Fin c)"
    by (simp add: numeric to_number_def)
  note ans = measure_latency_answers [OF conv, of env clk, folded r_def p_def res_def]
  have exact: "measurement res ''networkLatency'' = Number (Fin (of_int r - c))
      \<and> measurement res ''serverProcessingTime'' = Number (Fin (of_int p - of_int r))
      \<and> measurement res ''totalRoundTrip'' = Number (Fin (of_int p - c))
      \<and> js_equals (js_add (Fin (of_int r - c)) (Fin (of_int p - of_int r))) (Fin (of_int p - c))"
    if a: "representable (of_int r - c)" and b: "representable (of_int p - of_int r)"
      and t: "representable (of_int p - c)"
  proof -
    have "of_int r - c + (of_int p - of_int r) = of_int p - c" by simp
    then have "js_add (Fin (of_int r - c)) (Fin (of_int p - of_int r)) = Fin (of_int p - c)"
      using t by (simp add: representable_def)
    then show ?thesis
      using a b t by (simp add: ans clock_number_def representable_def js_equals_def)
  qed
  have whole: "measurement res ''networkLatency'' = Number (Fin (of_int (r - sent)))
      \<and> measurement res ''serverProcessingTime'' = Number (Fin (of_int (p - r)))
      \<and> measurement res ''totalRoundTrip'' = Number (Fin (of_int (p - sent)))
      \<and> js_equals (js_add (Fin (of_int (r - sent))) (Fin (of_int (p - r))))
          (Fin (of_int (p - sent)))"
    if c: "c = of_int sent" and a: "\<bar>r - sent\<bar> \<le> 2 ^ 53" and b: "\<bar>p - r\<bar> \<le> 2 ^ 53"
      and t: "\<bar>p - sent\<bar> \<le> 2 ^ 53" for sent
  proof -
    have "representable (of_int r - c)" "representable (of_int p - of_int r)"
      "representable (of_int p - c)"
      using representable_int [OF a] representable_int [OF b] representable_int [OF t]
      by (simp_all add: c)
    from exact [OF this] show ?thesis by (simp add: c)
  qed
  from ans(1,3,4,5) exact whole show ?thesis
    unfolding r_def p_def res_def by blast
qed

theorem latency_identity_witness:
  "get_prop (body (sample_request [(''clientSendTime'', Number (Fin 1700000000000))]))
       ''clientSendTime'' = Number (Fin 1700000000000)
   \<and> representable (of_int (serverReceiveTime sample_handler_clock) - 1700000000000)
   \<and> representable (of_int (serverProcessTime sample_handler_clock)
        - of_int (serverReceiveTime sample_handler_clock))
   \<and> representable (of_int (serverProcessTime sample_handler_clock) - 1700000000000)
   \<and> \<bar>serverReceiveTime sample_handler_clock - 1700000000000\<bar> \<le> 2 ^ 53
   \<and> \<bar>serverProcessTime sample_handler_clock - serverReceiveTime sample_handler_clock\<bar> \<le> 2 ^ 53
   \<and> \<bar>serverProcessTime sample_handler_clock - 1700000000000\<bar> \<le> 2 ^ 53
   \<and> measurement (measure_latency sample_runtime prod_env sample_handler_clock
        (sample_request [(''clientSendTime'', Number (Fin 1700000000000))])) ''networkLatency''
       = Number (Fin 21)
   \<and> measurement (measure_latency sample_runtime prod_env sample_handler_clock
        (sample_request [(''clientSendTime'', Number (Fin 1700000000000))]))
        ''serverProcessingTime'' = Number (Fin 29)
   \<and> measurement (measure_latency sample_runtime prod_env sample_handler_clock
        (sample_request [(''clientSendTime'', Number (Fin 1700000000000))])) ''totalRoundTrip''
       = Number (Fin 50)
   \<and> js_equals (js_add (Fin 21) (Fin 29)) (Fin 50)"
proof -
  define req where "req = sample_request [(''clientSendTime'', Number (Fin 1700000000000))]"
  have numeric: "get_prop (body req) ''clientSendTime'' = Number (Fin 1700000000000)"
    by (simp add: req_def sample_request_def)
  have r: "serverReceiveTime sample_handler_clock = 1700000000021"
    and p: "serverProcessTime sample_handler_clock = 1700000000050"
    by (simp_all add: sample_handler_clock_def)
  have reps: "representable (of_int (serverReceiveTime sample_handler_clock) - 1700000000000)"
    "representable (of_int (serverProcessTime sample_handler_clock)
        - of_int (serverReceiveTime sample_handler_clock))"
    "representable (of_int (serverProcessTime sample_handler_clock) - 1700000000000)"
    using representable_int [of 21] representable_int [of 29] representable_int [of 50]
    by (simp_all add: r p)
  have bounds: "\<bar>serverReceiveTime sample_handler_clock - 1700000000000\<bar> \<le> 2 ^ 53"
    "\<bar>serverProcessTime sample_handler_clock - serverReceiveTime sample_handler_clock\<bar> \<le> 2 ^ 53"
    "\<bar>serverProcessTime sample_handler_clock - 1700000000000\<bar> \<le> 2 ^ 53"
    by (simp_all add: r p)
  note inst = latency_identity [where req = req and c = 1700000000000 and rt = sample_runtime
      and env = prod_env and clk = sample_handler_clock, OF numeric]
  from inst reps
  have m: "measurement (measure_latency sample_runtime prod_env sample_handler_clock req)
             ''networkLatency''
           = Number (Fin (of_int (serverReceiveTime sample_handler_clock) - 1700000000000))
      \<and> measurement (measure_latency sample_runtime prod_env sample_handler_clock req)
             ''serverProcessingTime''
           = Number (Fin (of_int (serverProcessTime sample_handler_clock)
                - of_int (serverReceiveTime sample_handler_clock)))
      \<and> measurement (measure_latency sample_runtime prod_env sample_handler_clock req)
             ''totalRoundTrip''
           = Number (Fin (of_int (serverProcessTime sample_handler_clock) - 1700000000000))
      \<and> js_equals
           (js_add (Fin (of_int (serverReceiveTime sample_handler_clock) - 1700000000000))
              (Fin (of_int (serverProcessTime sample_handler_clock)
                 - of_int (serverReceiveTime sample_handler_clock))))
           (Fin (of_int (serverProcessTime sample_handler_clock) - 1700000000000))"
    by blast
  have vals: "measurement (measure_latency sample_runtime prod_env sample_handler_clock req)
             ''networkLatency'' = Number (Fin 21)
      \<and> measurement (measure_latency sample_runtime prod_env sample_handler_clock req)
             ''serverProcessingTime'' = Number (Fin 29)
      \<and> measurement (measure_latency sample_runtime prod_env sample_handler_clock req)
             ''totalRoundTrip'' = Number (Fin 50)
      \<and> js_equals (js_add (Fin 21) (Fin 29)) (Fin 50)"
    using m unfolding r p by simp
  from numeric reps bounds vals show ?thesis unfolding req_def by blast
qed

text \<open>
  C9 as stated fails for a numeric \<^verbatim>\<open>clientSendTime\<close> far from the clock: at
  \<open>- 2\<^sup>5\<^sup>3\<close>, with the server receiving at 1700000000021 and processing at 1700000000050,
  \<^verbatim>\<open>networkLatency\<close> is rounded to 9008899254741012, \<^verbatim>\<open>serverProcessingTime\<close> is 29
  and their sum is rounded to 9008899254741040, while \<^verbatim>\<open>totalRoundTrip\<close> is
  9008899254741042.
\<close>

theorem latency_rounding_counterexample:
  "get_prop (body (sample_request [(''clientSendTime'', Number (Fin (- 9007199254740992)))]))
       ''clientSendTime'' = Number (Fin (- 9007199254740992))
   \<and> measurement (measure_latency sample_runtime prod_env sample_handler_clock
        (sample_request [(''clientSendTime'', Number (Fin (- 9007199254740992)))]))
        ''networkLatency'' = Number (Fin 9008899254741012)
   \<and> measurement (measure_latency sample_runtime prod_env sample_handler_clock
        (sample_request [(''clientSendTime'', Number (Fin (- 9007199254740992)))]))
        ''serverProcessingTime'' = Number (Fin 29)
   \<and> measurement (measure_latency sample_runtime prod_env sample_handler_clock
        (sample_request [(''clientSendTime'', Number (Fin (- 9007199254740992)))]))
        ''totalRoundTrip'' = Number (Fin 9008899254741042)
   \<and> js_add (Fin 9008899254741012) (Fin 29) = Fin 9008899254741040
   \<and> \<not> js_equals (js_add (Fin 9008899254741012) (Fin 29)) (Fin 9008899254741042)"
proof -
  define req where
    "req = sample_request [(''clientSendTime'', Number (Fin (- 9007199254740992)))]"
  have numeric: "get_prop (body req) ''clientSendTime'' = Number (Fin (- 9007199254740992))"
    by (simp add: req_def sample_request_def)
  then have conv: "to_number sample_runtime (get_prop (body req) ''clientSendTime'')
      = Inr (Fin (- 9007199254740992))"
    by (simp add: to_number_def)
  have r: "serverReceiveTime sample_handler_clock = 1700000000021"
    and p: "serverProcessTime sample_handler_clock = 1700000000050"
    by (simp_all add: sample_handler_clock_def)
  note ans = measure_latency_answers [OF conv, of prod_env sample_handler_clock]
  have a: "measurement (measure_latency sample_runtime prod_env sample_handler_clock req)
        ''networkLatency'' = Number (Fin 9008899254741012)"
    by (simp add: ans r clock_number_def round_result_numeral_54)
  have b: "measurement (measure_latency sample_runtime prod_env sample_handler_clock req)
        ''serverProcessingTime'' = Number (Fin 29)"
    by (simp add: ans r p clock_number_def round_result_numeral)
  have t: "measurement (measure_latency sample_runtime prod_env sample_handler_clock req)
        ''totalRoundTrip'' = Number (Fin 9008899254741042)"
    by (simp add: ans p clock_number_def round_result_numeral_54)
  have s: "js_add (Fin 9008899254741012) (Fin 29) = Fin 9008899254741040"
    by (simp add: round_result_numeral_54)
  from numeric a b t s show ?thesis unfolding req_def by (simp add: js_equals_def)
qed

text \<open>
  C10 (as amended). The handler does not validate \<^verbatim>\<open>clientSendTime\<close> and never answers
  400. When the conversion of \<^verbatim>\<open>clientSendTime\<close> to a number yields \<open>n\<close>, it answers 200
  with \<^verbatim>\<open>success: true\<close>, and \<^verbatim>\<open>networkLatency\<close> and \<^verbatim>\<open>totalRoundTrip\<close> are
  \<^verbatim>\<open>NaN\<close> exactly when \<open>n\<close> is. When the conversion throws, the \<^verbatim>\<open>catch\<close> block
  answers 500 with \<^verbatim>\<open>success: false\<close> and without those two fields. The conversion
  yields \<^verbatim>\<open>NaN\<close> for an absent value and for an object without a property
  \<^verbatim>\<open>toString\<close> of its own, 0 for \<^verbatim>\<open>null\<close> and \<^verbatim>\<open>false\<close>, 1 for \<^verbatim>\<open>true\<close>, the
  numeric value of a string, and for an array that of its joined elements; it throws a
  \<^verbatim>\<open>TypeError\<close> for an object with a property \<^verbatim>\<open>toString\<close> of its own (and for an array
  with such an element).
\<close>

theorem no_validation_of_clientSendTime:
  "status (measure_latency rt env clk req) \<noteq> 400
   \<and> (\<forall>n. to_number rt (get_prop (body req) ''clientSendTime'') = Inr n \<longrightarrow>
          status (measure_latency rt env clk req) = 200
          \<and> js_get (json (measure_latency rt env clk req)) ''success'' = Bool True
          \<and> measurement (measure_latency rt env clk req) ''networkLatency''
              = Number (js_sub (clock_number (serverReceiveTime clk)) n)
          \<and> measurement (measure_latency rt env clk req) ''totalRoundTrip''
              = Number (js_sub (clock_number (serverProcessTime clk)) n)
          \<and> (js_sub (clock_number (serverReceiveTime clk)) n = NaN) = (n = NaN)
          \<and> (js_sub (clock_number (serverProcessTime clk)) n = NaN) = (n = NaN))
   \<and> (\<forall>e. to_number rt (get_prop (body req) ''clientSendTime'') = Inl e \<longrightarrow>
          status (measure_latency rt env clk req) = 500
          \<and> js_get (json (measure_latency rt env clk req)) ''success'' = Bool False
          \<and> js_get (json (measure_latency rt env clk req)) ''error''
              = Str ''Latency measurement failed''
          \<and> measurement (measure_latency rt env clk req) ''networkLatency'' = Undefined
          \<and> measurement (measure_latency rt env clk req) ''totalRoundTrip'' = Undefined)
   \<and> (\<not> has_own (body req) ''clientSendTime'' \<longrightarrow>
          get_prop (body req) ''clientSendTime'' = Undefined)
   \<and> to_number rt Undefined = Inr NaN
   \<and> to_number rt Null = Inr (Fin 0)
   \<and> to_number rt (Bool True) = Inr (Fin 1)
   \<and> to_number rt (Bool False) = Inr (Fin 0)
   \<and> (\<forall>s. to_number rt (Str s) = Inr (stringToNumber rt s))
   \<and> (\<forall>kvs. to_number rt (Obj kvs)
          = (if has_own kvs ''toString'' then Inl TypeError else Inr NaN))
   \<and> (\<forall>xs. to_number rt (Arr xs)
          = (case js_join rt xs of Inl e \<Rightarrow> Inl e | Inr s \<Rightarrow> Inr (stringToNumber rt s)))"
proof -
  have st: "status (measure_latency rt env clk req) \<noteq> 400"
    by (cases "to_number rt (get_prop (body req) ''clientSendTime'')")
      (simp_all add: measure_latency_throws measure_latency_answers)
  have absent: "get_prop kvs k = Undefined" if "\<not> has_own kvs k" for kvs k
    using that by (induction kvs) (auto simp: has_own_def)
  have conv: "to_number rt Undefined = Inr NaN" "to_number rt Null = Inr (Fin 0)"
    "to_number rt (Bool True) = Inr (Fin 1)" "to_number rt (Bool False) = Inr (Fin 0)"
    "\<forall>s. to_number rt (Str s) = Inr (stringToNumber rt s)"
    "\<forall>kvs. to_number rt (Obj kvs)
          = (if has_own kvs ''toString'' then Inl TypeError else Inr NaN)"
    "\<forall>xs. to_number rt (Arr xs)
          = (case js_join rt xs of Inl e \<Rightarrow> Inl e | Inr s \<Rightarrow> Inr (stringToNumber rt s))"
    by (simp_all add: to_number_def)
  from st absent conv show ?thesis
    by (simp add: measure_latency_throws measure_latency_answers clock_number_def js_sub_NaN)
qed

theorem no_validation_of_clientSendTime_witness:
  "\<not> has_own (body (sample_request [])) ''clientSendTime''
   \<and> to_number sample_runtime (get_prop (body (sample_request [])) ''clientSendTime'') = Inr NaN
   \<and> status (measure_latency sample_runtime prod_env sample_handler_clock (sample_request []))
       = 200
   \<and> js_get (json (measure_latency sample_runtime prod_env sample_handler_clock
        (sample_request []))) ''success'' = Bool True
   \<and> measurement (measure_latency sample_runtime prod_env sample_handler_clock
        (sample_request [])) ''networkLatency'' = Number NaN
   \<and> measurement (measure_latency sample_runtime prod_env sample_handler_clock
        (sample_request [])) ''totalRoundTrip'' = Number NaN
   \<and> to_number sample_runtime (get_prop (body (sample_request
        [(''clientSendTime'', Obj [(''toString'', Number (Fin 1))])])) ''clientSendTime'')
       = Inl TypeError
   \<and> status (measure_latency sample_runtime prod_env sample_handler_clock
        (sample_request [(''clientSendTime'', Obj [(''toString'', Number (Fin 1))])])) = 500
   \<and> js_get (json (measure_latency sample_runtime prod_env sample_handler_clock
        (sample_request [(''clientSendTime'', Obj [(''toString'', Number (Fin 1))])])))
        ''success'' = Bool False"
proof -
  define bad where
    "bad = sample_request [(''clientSendTime'', Obj [(''toString'', Number (Fin 1))])]"
  have none: "\<not> has_own (body (sample_request [])) ''clientSendTime''"
    by (simp add: sample_request_def has_own_def)
  note inst = no_validation_of_clientSendTime [where rt = sample_runtime and env = prod_env
      and clk = sample_handler_clock and req = "sample_request []"]
  from inst none
  have u: "get_prop (body (sample_request [])) ''clientSendTime'' = Undefined" by blast
  from inst have n: "to_number sample_runtime Undefined = Inr NaN" by blast
  have c1: "to_number sample_runtime (get_prop (body (sample_request [])) ''clientSendTime'')
      = Inr NaN"
    by (simp add: u n)
  from inst c1
  have ok: "status (measure_latency sample_runtime prod_env sample_handler_clock
        (sample_request [])) = 200
     \<and> js_get (json (measure_latency sample_runtime prod_env sample_handler_clock
        (sample_request []))) ''success'' = Bool True
     \<and> measurement (measure_latency sample_runtime prod_env sample_handler_clock
        (sample_request [])) ''networkLatency''
         = Number (js_sub (clock_number (serverReceiveTime sample_handler_clock)) NaN)
     \<and> measurement (measure_latency sample_runtime prod_env sample_handler_clock
        (sample_request [])) ''totalRoundTrip''
         = Number (js_sub (clock_number (serverProcessTime sample_handler_clock)) NaN)"
    by blast
  note inst_bad = no_validation_of_clientSendTime [where rt = sample_runtime and env = prod_env
      and clk = sample_handler_clock and req = bad]
  have g: "get_prop (body bad) ''clientSendTime'' = Obj [(''toString'', Number (Fin 1))]"
    by (simp add: bad_def sample_request_def)
  from inst_bad
  have "to_number sample_runtime (Obj [(''toString'', Number (Fin 1))])
      = (if has_own [(''toString'', Number (Fin 1))] ''toString'' then Inl TypeError
         else Inr NaN)"
    by blast
  then have c2: "to_number sample_runtime (get_prop (body bad) ''clientSendTime'')
      = Inl TypeError"
    by (simp add: g has_own_def)
  from inst_bad c2
  have err: "status (measure_latency sample_runtime prod_env sample_handler_clock bad) = 500
     \<and> js_get (json (measure_latency sample_runtime prod_env sample_handler_clock bad))
         ''success'' = Bool False"
    by blast
  from none c1 ok c2 err show ?thesis
    unfolding bad_def by (simp add: clock_number_def)
qed

text \<open>
  C10 as stated fails in two ways. For \<^verbatim>\<open>clientSendTime: null\<close>, which is not numeric,
  the two derived fields are the numbers 1700000000021 and 1700000000050, not \<^verbatim>\<open>NaN\<close>.
  For \<^verbatim>\<open>clientSendTime: {"toString": 1}\<close> the answer is 500 with \<^verbatim>\<open>success: false\<close>,
  not 200.
\<close>

theorem clientSendTime_conversion_counterexample:
  "status (measure_latency sample_runtime prod_env sample_handler_clock
        (sample_request [(''clientSendTime'', Null)])) = 200
   \<and> measurement (measure_latency sample_runtime prod_env sample_handler_clock
        (sample_request [(''clientSendTime'', Null)])) ''networkLatency''
       = Number (Fin 1700000000021)
   \<and> measurement (measure_latency sample_runtime prod_env sample_handler_clock
        (sample_request [(''clientSendTime'', Null)])) ''totalRoundTrip''
       = Number (Fin 1700000000050)
   \<and> Fin 1700000000021 \<noteq> NaN \<and> Fin 1700000000050 \<noteq> NaN
   \<and> status (measure_latency sample_runtime prod_env sample_handler_clock
        (sample_request [(''clientSendTime'', Obj [(''toString'', Number (Fin 1))])])) = 500
   \<and> js_get (json (measure_latency sample_runtime prod_env sample_handler_clock
        (sample_request [(''clientSendTime'', Obj [(''toString'', Number (Fin 1))])])))
        ''success'' = Bool False"
proof -
  have c1: "to_number sample_runtime
      (get_prop (body (sample_request [(''clientSendTime'', Null)])) ''clientSendTime'')
      = Inr (Fin 0)"
    by (simp add: sample_request_def to_number_def)
  have c2: "to_number sample_runtime
      (get_prop (body (sample_request
         [(''clientSendTime'', Obj [(''toString'', Number (Fin 1))])])) ''clientSendTime'')
      = Inl TypeError"
    by (simp add: sample_request_def to_number_def has_own_def)
  have r: "serverReceiveTime sample_handler_clock = 1700000000021"
    and p: "serverProcessTime sample_handler_clock = 1700000000050"
    by (simp_all add: sample_handler_clock_def)
  show ?thesis
    by (simp add: measure_latency_answers [OF c1] measure_latency_throws [OF c2] r p
        clock_number_def round_result_numeral)
qed

section \<open>Properties of the upstream call executor\<close>

lemma fails_rejected:
  "attempt_fails r \<Longrightarrow> \<exists>e. axios_request (\<lambda>st. st < 500) r = Rejected e"
  by (cases r) (auto simp: attempt_fails_def axios_request_def)

lemma requests_of_append: "requests_of (xs @ ys) = requests_of xs @ requests_of ys"
  by (induction xs rule: requests_of.induct) simp_all

lemma updates_of_append: "updates_of (xs @ ys) = updates_of xs @ updates_of ys"
  by (induction xs rule: updates_of.induct) simp_all

lemma retry_loop_last_attempt:
  assumes "axios_request (\<lambda>st. st < 500) (upstream net retries) = Rejected e"
  shows "retry_loop rt env net clk question retries base retries cb trail
     = (let cb1 = updateCircuitBreaker False (updateTime clk) cb
        in (createFallbackResponse rt env clk cb1 question (entryTime clk)
              (Obj [(''error'', Str ''DUIX API unavailable''),
                    (''attempts'', Number (Fin (of_int (int retries)))),
                    (''last_error'', Str (code_or_message e)),
                    (''circuit_breaker_state'', Str (mode_name (state cb1)))]),
            cb1,
            trail @ [Request retries (base + int retries * 2000)
                      (createHTTPSAgent env ''duix_api''),
                    BreakerUpdate False]))"
  by (subst retry_loop.simps) (simp add: assms Let_def)

lemma retry_loop_next_attempt:
  assumes "axios_request (\<lambda>st. st < 500) (upstream net attempt) = Rejected e"
    and "attempt < retries"
  shows "retry_loop rt env net clk question retries base attempt cb trail
     = retry_loop rt env net clk question retries base (attempt + 1) cb
         (trail @ [Request attempt (base + int attempt * 2000)
                    (createHTTPSAgent env ''duix_api''),
                  Sleep (min (2 ^ attempt * 1000 + jitter net attempt) 10000)])"
  using assms(2) by (subst retry_loop.simps) (simp add: assms(1) Let_def)

lemma retry_loop_resolved:
  assumes "upstream net attempt = HttpResponse st d" and "st < 500" and "attempt \<le> retries"
  shows "retry_loop rt env net clk question retries base attempt cb trail
     = (Obj [(''session_id'', Str (''duix_session_'' @ string_of_int (sessionTime clk))),
             (''data'', Obj
                [(''text'', Str (''DUIX Avatar response to: '' @ [CHR 0x22] @ question
                     @ [CHR 0x22])),
                 (''api_call_successful'', Bool (st = 200)),
                 (''api_status'', Number (Fin (of_int st))),
                 (''concurrent_info'', d),
                 (''real_api_response'', Bool True),
                 (''response_time_ms'',
                    Number (js_sub (clock_number (finishTime clk))
                              (clock_number (entryTime clk)))),
                 (''circuit_breaker_state'', Str ''CLOSED''),
                 (''aws_region'', Str (or_default (AWS_REGION env) ''local''))])],
        cb\<lparr>failures := 0, state := CLOSED\<rparr>,
        trail @ [Request attempt (base + int attempt * 2000) (createHTTPSAgent env ''duix_api''),
                BreakerUpdate True])"
  using assms(2,3)
  by (subst retry_loop.simps)
     (simp add: assms(1) axios_request_def Let_def updateCircuitBreaker_def mode_name_def)

lemma token_rejected:
  assumes "\<not> IS_PRODUCTION env" and "\<not> is_string clientToken"
  shows "callDUIXServiceWithToken rt env net clk question clientToken cb
           = (Inl TypeError, cb, [])"
  using assms by (simp add: callDUIXServiceWithToken_def Let_def)

lemma blocked_call:
  assumes "IS_PRODUCTION env \<or> is_string clientToken"
    and "\<not> fst (shouldAttemptDuixCall (checkTime clk) cb)"
  shows "callDUIXServiceWithToken rt env net clk question clientToken cb
           = (Inr (createFallbackResponse rt env clk cb question (entryTime clk) Null), cb, [])"
proof -
  from assms(2) have "shouldAttemptDuixCall (checkTime clk) cb = (False, cb)"
    by (auto simp: shouldAttemptDuixCall_def split: if_splits)
  then show ?thesis
    using assms(1) by (auto simp: callDUIXServiceWithToken_def Let_def)
qed

lemma allowed_call:
  assumes "IS_PRODUCTION env \<or> is_string clientToken"
    and "fst (shouldAttemptDuixCall (checkTime clk) cb)"
    and "retry_loop rt env net clk question (maxRetries env) (baseTimeout env) 1
           (snd (shouldAttemptDuixCall (checkTime clk) cb)) [] = (response, cb1, trail)"
  shows "callDUIXServiceWithToken rt env net clk question clientToken cb
           = (Inr response, cb1, trail)"
  using assms by (auto simp: callDUIXServiceWithToken_def Let_def split_def)

lemma js_get_Obj: "js_get (Obj kvs) k = get_prop kvs k"
  by (simp add: js_get_def)

lemma fallback_fields:
  "js_keys (createFallbackResponse rt env clk cb question startTime errorInfo)
      = [''session_id'', ''data'']
   \<and> js_get (createFallbackResponse rt env clk cb question startTime errorInfo) ''session_id''
      = Str (''fallback_session_'' @ string_of_int (sessionTime clk))
   \<and> js_get (createFallbackResponse rt env clk cb question startTime errorInfo) ''data''
      = Obj [(''text'', Str (''[Hybrid Mode] Processing: '' @ [CHR 0x22] @ question @ [CHR 0x22]
                  @ '' - DUIX service temporarily unavailable, using local processing.'')),
              (''api_call_successful'', Bool False),
              (''api_status'', Number (Fin 503)),
              (''fallback_mode'', Bool True),
              (''aws_hybrid_response'', Bool True),
              (''response_time_ms'',
                 Number (js_sub (clock_number (finishTime clk)) (clock_number startTime))),
              (''circuit_breaker_state'', Str (mode_name (state cb))),
              (''error_info'', errorInfo),
              (''timestamp'', Str (toISOString rt (timestampTime clk))),
              (''aws_region'', Str (or_default (AWS_REGION env) ''local''))]"
  by (simp add: createFallbackResponse_def js_keys_def js_get_def)

lemma retry_loop_exhausted:
  assumes allfail: "\<forall>k. attempt_fails (upstream net k)"
    and le: "attempt \<le> retries"
  shows "\<exists>e trail'.
           axios_request (\<lambda>st. st < 500) (upstream net retries) = Rejected e
         \<and> retry_loop rt env net clk question retries base attempt cb trail
             = (createFallbackResponse rt env clk (updateCircuitBreaker False (updateTime clk) cb)
                  question (entryTime clk)
                  (Obj [(''error'', Str ''DUIX API unavailable''),
                    (''attempts'', Number (Fin (of_int (int retries)))),
                    (''last_error'', Str (code_or_message e)),
                    (''circuit_breaker_state'',
                       Str (mode_name (state (updateCircuitBreaker False (updateTime clk) cb))))]),
                updateCircuitBreaker False (updateTime clk) cb, trail')
         \<and> requests_of trail' = requests_of trail
              @ map (\<lambda>k. (k, base + int k * 2000)) [attempt ..< Suc retries]
         \<and> updates_of trail' = updates_of trail @ [False]"
  using le
proof (induction "retries - attempt" arbitrary: attempt trail)
  case 0
  then have eq: "attempt = retries" by simp
  obtain e where rej: "axios_request (\<lambda>st. st < 500) (upstream net retries) = Rejected e"
    using allfail fails_rejected by blast
  show ?case
    unfolding eq retry_loop_last_attempt [OF rej]
    by (simp add: rej Let_def requests_of_append updates_of_append)
next
  case (Suc n)
  then have lt: "attempt < retries" and n: "n = retries - (attempt + 1)"
    and le': "attempt + 1 \<le> retries" by simp_all
  obtain e where rej: "axios_request (\<lambda>st. st < 500) (upstream net attempt) = Rejected e"
    using allfail fails_rejected by blast
  have range: "[attempt ..< Suc retries] = attempt # [attempt + 1 ..< Suc retries]"
    using lt by (simp add: upt_conv_Cons)
  let ?trail1 = "trail @ [Request attempt (base + int attempt * 2000)
                    (createHTTPSAgent env ''duix_api''),
                  Sleep (min (2 ^ attempt * 1000 + jitter net attempt) 10000)]"
  from Suc.hyps(1) [OF n le', of ?trail1] obtain e' trail' where
    last: "axios_request (\<lambda>st. st < 500) (upstream net retries) = Rejected e'"
    and run: "retry_loop rt env net clk question retries base (attempt + 1) cb ?trail1
             = (createFallbackResponse rt env clk (updateCircuitBreaker False (updateTime clk) cb)
                  question (entryTime clk)
                  (Obj [(''error'', Str ''DUIX API unavailable''),
                    (''attempts'', Number (Fin (of_int (int retries)))),
                    (''last_error'', Str (code_or_message e')),
                    (''circuit_breaker_state'',
                       Str (mode_name (state (updateCircuitBreaker False (updateTime clk) cb))))]),
                updateCircuitBreaker False (updateTime clk) cb, trail')"
    and reqs: "requests_of trail' = requests_of ?trail1
              @ map (\<lambda>k. (k, base + int k * 2000)) [attempt + 1 ..< Suc retries]"
    and upds: "updates_of trail' = updates_of ?trail1 @ [False]"
    by blast
  have reqs': "requests_of trail' = requests_of trail
              @ map (\<lambda>k. (k, base + int k * 2000)) [attempt ..< Suc retries]"
    unfolding reqs range by (simp add: requests_of_append)
  have upds': "updates_of trail' = updates_of trail @ [False]"
    unfolding upds by (simp add: updates_of_append)
  show ?case
    unfolding retry_loop_next_attempt [OF rej lt]
    using last run reqs' upds' by blast
qed

lemma timeouts_increasing:
  "sorted_wrt (<) (map snd (map (\<lambda>k. (k, base + int k * 2000)) [i ..< j]))"
proof -
  have "sorted_wrt (\<lambda>x y. base + int x * 2000 < base + int y * 2000) [i ..< j]"
    by (rule sorted_wrt_mono_rel [OF _ sorted_wrt_upt]) simp
  then show ?thesis by (simp add: sorted_wrt_map comp_def)
qed

lemma max_retries_ge1: "1 \<le> maxRetries env"
  by (simp add: maxRetries_def)

lemma initial_allowed: "fst (shouldAttemptDuixCall t duixApiCircuitBreaker)"
  by (simp add: shouldAttemptDuixCall_def duixApiCircuitBreaker_def)

lemma initial_unchanged: "snd (shouldAttemptDuixCall t duixApiCircuitBreaker) = duixApiCircuitBreaker"
  by (simp add: shouldAttemptDuixCall_def duixApiCircuitBreaker_def)

lemma open_breaker_blocks: "\<not> fst (shouldAttemptDuixCall (checkTime sample_clock) open_breaker)"
  by (simp add: shouldAttemptDuixCall_def open_breaker_def sample_clock_def)

lemma timeout_network_fails: "\<forall>k. attempt_fails (upstream timeout_network k)"
  by (simp add: timeout_network_def attempt_fails_def)

lemma not_found_first: "upstream not_found_network 1 = HttpResponse 404 (Obj [(''code'', Str ''404'')])"
  by (simp add: not_found_network_def)

lemma token_is_string: "is_string (Str s)" "\<not> is_string (Number n)"
  by (simp_all add: is_string_def)

lemma sample_elapsed:
  "js_sub (clock_number (finishTime sample_clock)) (clock_number (entryTime sample_clock)) = Fin 42"
  by (simp add: sample_clock_def clock_number_def round_result_numeral)

lemma resolved_call:
  assumes token: "IS_PRODUCTION env \<or> is_string clientToken"
    and allowed: "fst (shouldAttemptDuixCall (checkTime clk) cb)"
    and first: "upstream net 1 = HttpResponse st d"
    and status: "st < 500"
  shows "callDUIXServiceWithToken rt env net clk question clientToken cb =
     (Inr (Obj [(''session_id'', Str (''duix_session_'' @ string_of_int (sessionTime clk))),
           (''data'', Obj
              [(''text'', Str (''DUIX Avatar response to: '' @ [CHR 0x22] @ question
                   @ [CHR 0x22])),
               (''api_call_successful'', Bool (st = 200)),
               (''api_status'', Number (Fin (of_int st))),
               (''concurrent_info'', d),
               (''real_api_response'', Bool True),
               (''response_time_ms'',
                  Number (js_sub (clock_number (finishTime clk)) (clock_number (entryTime clk)))),
               (''circuit_breaker_state'', Str ''CLOSED''),
               (''aws_region'', Str (or_default (AWS_REGION env) ''local''))])]),
      (snd (shouldAttemptDuixCall (checkTime clk) cb))\<lparr>failures := 0, state := CLOSED\<rparr>,
      [Request 1 (baseTimeout env + 2000) (createHTTPSAgent env ''duix_api''),
       BreakerUpdate True])"
proof -
  have "retry_loop rt env net clk question (maxRetries env) (baseTimeout env) 1
          (snd (shouldAttemptDuixCall (checkTime clk) cb)) []
     = (Obj [(''session_id'', Str (''duix_session_'' @ string_of_int (sessionTime clk))),
           (''data'', Obj
              [(''text'', Str (''DUIX Avatar response to: '' @ [CHR 0x22] @ question
                   @ [CHR 0x22])),
               (''api_call_successful'', Bool (st = 200)),
               (''api_status'', Number (Fin (of_int st))),
               (''concurrent_info'', d),
               (''real_api_response'', Bool True),
               (''response_time_ms'',
                  Number (js_sub (clock_number (finishTime clk)) (clock_number (entryTime clk)))),
               (''circuit_breaker_state'', Str ''CLOSED''),
               (''aws_region'', Str (or_default (AWS_REGION env) ''local''))])],
      (snd (shouldAttemptDuixCall (checkTime clk) cb))\<lparr>failures := 0, state := CLOSED\<rparr>,
      [Request 1 (baseTimeout env + 2000) (createHTTPSAgent env ''duix_api''),
       BreakerUpdate True])"
    using retry_loop_resolved [where rt = rt and env = env and clk = clk and question = question
        and base = "baseTimeout env" and cb = "snd (shouldAttemptDuixCall (checkTime clk) cb)"
        and trail = "[]", OF first status max_retries_ge1 [of env]]
    by simp
  from allowed_call [OF token allowed this] show ?thesis .
qed




text \<open>
  C2 (as amended). When the call gets as far as the breaker (under production, or with a
  string as client token), the breaker lets it through and every request fails (at the
  network level or with a status of 500 or more), the executor makes exactly \<open>maxRetries\<close>
  requests, request \<open>k\<close> with the timeout \<open>baseTimeout + k * 2000\<close> ms (strictly
  increasing), calls \<^verbatim>\<open>updateCircuitBreaker(false)\<close> exactly once and nothing else on the
  breaker, and returns a fallback response whose \<^verbatim>\<open>error_info.attempts\<close> is
  \<open>maxRetries\<close>. \<open>maxRetries\<close> is 2 and \<open>baseTimeout\<close> 15000 under production, 3 and
  20000 otherwise.
\<close>

theorem retry_exhaustion:
  assumes token: "IS_PRODUCTION env \<or> is_string clientToken"
    and allowed: "fst (shouldAttemptDuixCall (checkTime clk) cb)"
    and allfail: "\<forall>k. attempt_fails (upstream net k)"
  shows "\<exists>e response cb' effects.
      callDUIXServiceWithToken rt env net clk question clientToken cb
        = (Inr response, cb', effects)
    \<and> requests_of effects
        = map (\<lambda>k. (k, baseTimeout env + int k * 2000)) [1 ..< Suc (maxRetries env)]
    \<and> length (requests_of effects) = maxRetries env
    \<and> sorted_wrt (<) (map snd (requests_of effects))
    \<and> updates_of effects = [False]
    \<and> cb' = updateCircuitBreaker False (updateTime clk)
               (snd (shouldAttemptDuixCall (checkTime clk) cb))
    \<and> axios_request (\<lambda>st. st < 500) (upstream net (maxRetries env)) = Rejected e
    \<and> response = createFallbackResponse rt env clk cb' question (entryTime clk)
                   (Obj [(''error'', Str ''DUIX API unavailable''),
                         (''attempts'', Number (Fin (of_int (int (maxRetries env))))),
                         (''last_error'', Str (code_or_message e)),
                         (''circuit_breaker_state'', Str (mode_name (state cb')))])
    \<and> js_get (js_get response ''data'') ''fallback_mode'' = Bool True
    \<and> js_get (js_get (js_get response ''data'') ''error_info'') ''attempts''
        = Number (Fin (of_int (int (maxRetries env))))
    \<and> maxRetries env = (if IS_PRODUCTION env then 2 else 3)
    \<and> baseTimeout env = (if IS_PRODUCTION env then 15000 else 20000)"
proof -
  let ?cb0 = "snd (shouldAttemptDuixCall (checkTime clk) cb)"
  let ?cb1 = "updateCircuitBreaker False (updateTime clk) ?cb0"
  from retry_loop_exhausted [OF allfail max_retries_ge1, of env rt env clk question "baseTimeout env" ?cb0 "[]"]
  obtain e effects where
    last: "axios_request (\<lambda>st. st < 500) (upstream net (maxRetries env)) = Rejected e"
    and run: "retry_loop rt env net clk question (maxRetries env) (baseTimeout env) 1 ?cb0 []
       = (createFallbackResponse rt env clk ?cb1 question (entryTime clk)
                  (Obj [(''error'', Str ''DUIX API unavailable''),
                    (''attempts'', Number (Fin (of_int (int (maxRetries env))))),
                    (''last_error'', Str (code_or_message e)),
                    (''circuit_breaker_state'', Str (mode_name (state ?cb1)))]),
          ?cb1, effects)"
    and reqs: "requests_of effects
        = map (\<lambda>k. (k, baseTimeout env + int k * 2000)) [1 ..< Suc (maxRetries env)]"
    and upds: "updates_of effects = [False]"
    by auto
  let ?response = "createFallbackResponse rt env clk ?cb1 question (entryTime clk)
                  (Obj [(''error'', Str ''DUIX API unavailable''),
                    (''attempts'', Number (Fin (of_int (int (maxRetries env))))),
                    (''last_error'', Str (code_or_message e)),
                    (''circuit_breaker_state'', Str (mode_name (state ?cb1)))])"
  have call: "callDUIXServiceWithToken rt env net clk question clientToken cb
      = (Inr ?response, ?cb1, effects)"
    by (rule allowed_call [OF token allowed run])
  have len: "length (requests_of effects) = maxRetries env"
    unfolding reqs by simp
  have inc: "sorted_wrt (<) (map snd (requests_of effects))"
    unfolding reqs by (rule timeouts_increasing)
  have mode: "js_get (js_get ?response ''data'') ''fallback_mode'' = Bool True"
    by (simp add: fallback_fields js_get_Obj)
  have att: "js_get (js_get (js_get ?response ''data'') ''error_info'') ''attempts''
        = Number (Fin (of_int (int (maxRetries env))))"
    by (simp add: fallback_fields js_get_Obj)
  have vals: "maxRetries env = (if IS_PRODUCTION env then 2 else 3)"
      "baseTimeout env = (if IS_PRODUCTION env then 15000 else 20000)"
    by (simp_all add: maxRetries_def baseTimeout_def)
  from call reqs len inc upds last mode att vals show ?thesis by blast
qed

theorem retry_exhaustion_witness:
  "is_string (Str ''token'')
   \<and> fst (shouldAttemptDuixCall (checkTime sample_clock) duixApiCircuitBreaker)
   \<and> (\<forall>k. attempt_fails (upstream timeout_network k))
   \<and> (\<exists>response cb' effects.
        callDUIXServiceWithToken sample_runtime dev_env timeout_network sample_clock ''hello''
          (Str ''token'') duixApiCircuitBreaker = (Inr response, cb', effects)
      \<and> requests_of effects = [(1, 22000), (2, 24000), (3, 26000)]
      \<and> updates_of effects = [False]
      \<and> failures cb' = 1
      \<and> js_get (js_get (js_get response ''data'') ''error_info'') ''attempts''
          = Number (Fin 3))
   \<and> (\<exists>response cb' effects.
        callDUIXServiceWithToken sample_runtime prod_env timeout_network sample_clock ''hello''
          (Str ''token'') duixApiCircuitBreaker = (Inr response, cb', effects)
      \<and> requests_of effects = [(1, 17000), (2, 19000)]
      \<and> updates_of effects = [False]
      \<and> js_get (js_get (js_get response ''data'') ''error_info'') ''attempts''
          = Number (Fin 2))"
proof -
  have dev: "maxRetries dev_env = 3" "baseTimeout dev_env = 20000"
    and prod: "maxRetries prod_env = 2" "baseTimeout prod_env = 15000"
    by (simp_all add: maxRetries_def baseTimeout_def dev_env_def prod_env_def)
  have r3: "[1 ..< Suc 3] = [1, 2, 3]" and r2: "[1 ..< Suc 2] = [1, 2]"
    by (simp_all add: upt_conv_Cons)
  have tok: "is_string (Str ''token'')" by (rule token_is_string)
  then have tok_dev: "IS_PRODUCTION dev_env \<or> is_string (Str ''token'')"
    and tok_prod: "IS_PRODUCTION prod_env \<or> is_string (Str ''token'')" by simp_all
  from retry_exhaustion [where clk = sample_clock and cb = duixApiCircuitBreaker
      and net = timeout_network and rt = sample_runtime and env = dev_env
      and question = "''hello''" and clientToken = "Str ''token''",
      OF tok_dev initial_allowed timeout_network_fails]
  obtain response cb' effects where
    call: "callDUIXServiceWithToken sample_runtime dev_env timeout_network sample_clock ''hello''
             (Str ''token'') duixApiCircuitBreaker = (Inr response, cb', effects)"
    and reqs: "requests_of effects
        = map (\<lambda>k. (k, baseTimeout dev_env + int k * 2000)) [1 ..< Suc (maxRetries dev_env)]"
    and upds: "updates_of effects = [False]"
    and cb': "cb' = updateCircuitBreaker False (updateTime sample_clock)
               (snd (shouldAttemptDuixCall (checkTime sample_clock) duixApiCircuitBreaker))"
    and att: "js_get (js_get (js_get response ''data'') ''error_info'') ''attempts''
        = Number (Fin (of_int (int (maxRetries dev_env))))"
    by blast
  have reqs': "requests_of effects = [(1, 22000), (2, 24000), (3, 26000)]"
    unfolding reqs dev r3 by simp
  have fail: "failures cb' = 1"
    unfolding cb' initial_unchanged
    by (simp add: updateCircuitBreaker_def duixApiCircuitBreaker_def Let_def)
  have att': "js_get (js_get (js_get response ''data'') ''error_info'') ''attempts''
      = Number (Fin 3)"
    unfolding att dev by simp
  from call reqs' upds fail att'
  have dev_run: "\<exists>response cb' effects.
        callDUIXServiceWithToken sample_runtime dev_env timeout_network sample_clock ''hello''
          (Str ''token'') duixApiCircuitBreaker = (Inr response, cb', effects)
      \<and> requests_of effects = [(1, 22000), (2, 24000), (3, 26000)]
      \<and> updates_of effects = [False]
      \<and> failures cb' = 1
      \<and> js_get (js_get (js_get response ''data'') ''error_info'') ''attempts''
          = Number (Fin 3)"
    by blast
  from retry_exhaustion [where clk = sample_clock and cb = duixApiCircuitBreaker
      and net = timeout_network and rt = sample_runtime and env = prod_env
      and question = "''hello''" and clientToken = "Str ''token''",
      OF tok_prod initial_allowed timeout_network_fails]
  obtain response_p cb_p effects_p where
    call_p: "callDUIXServiceWithToken sample_runtime prod_env timeout_network sample_clock
             ''hello'' (Str ''token'') duixApiCircuitBreaker = (Inr response_p, cb_p, effects_p)"
    and reqs_p: "requests_of effects_p
        = map (\<lambda>k. (k, baseTimeout prod_env + int k * 2000)) [1 ..< Suc (maxRetries prod_env)]"
    and upds_p: "updates_of effects_p = [False]"
    and att_p: "js_get (js_get (js_get response_p ''data'') ''error_info'') ''attempts''
        = Number (Fin (of_int (int (maxRetries prod_env))))"
    by blast
  have reqs_p': "requests_of effects_p = [(1, 17000), (2, 19000)]"
    unfolding reqs_p prod r2 by simp
  have att_p': "js_get (js_get (js_get response_p ''data'') ''error_info'') ''attempts''
      = Number (Fin 2)"
    unfolding att_p prod by simp
  from call_p reqs_p' upds_p att_p'
  have prod_run: "\<exists>response cb' effects.
        callDUIXServiceWithToken sample_runtime prod_env timeout_network sample_clock ''hello''
          (Str ''token'') duixApiCircuitBreaker = (Inr response, cb', effects)
      \<and> requests_of effects = [(1, 17000), (2, 19000)]
      \<and> updates_of effects = [False]
      \<and> js_get (js_get (js_get response ''data'') ''error_info'') ''attempts''
          = Number (Fin 2)"
    by blast
  from tok initial_allowed timeout_network_fails dev_run prod_run show ?thesis by blast
qed

text \<open>
  C2 as stated fails in two ways. With the breaker open every request would fail, yet the
  executor makes no request, records nothing on the breaker and returns a fallback response
  without an \<^verbatim>\<open>attempts\<close> field. Outside production, with a client token that is truthy
  but no string (the number 12345) and the breaker closed, the call throws a
  \<^verbatim>\<open>TypeError\<close> before the breaker is asked: no request, nothing recorded, no response.
\<close>

theorem retry_exhaustion_counterexample:
  "(\<forall>k. attempt_fails (upstream timeout_network k))
   \<and> maxRetries prod_env = 2
   \<and> callDUIXServiceWithToken sample_runtime prod_env timeout_network sample_clock ''hello''
        (Str ''token'') open_breaker
       = (Inr (createFallbackResponse sample_runtime prod_env sample_clock open_breaker ''hello''
            1700000000000 Null),
          open_breaker, [])
   \<and> requests_of [] = []
   \<and> updates_of [] = []
   \<and> js_get (js_get (createFallbackResponse sample_runtime prod_env sample_clock open_breaker
        ''hello'' 1700000000000 Null) ''data'') ''error_info'' = Null
   \<and> truthy (Number (Fin 12345))
   \<and> fst (shouldAttemptDuixCall (checkTime sample_clock) duixApiCircuitBreaker)
   \<and> maxRetries dev_env = 3
   \<and> callDUIXServiceWithToken sample_runtime dev_env timeout_network sample_clock ''hello''
        (Number (Fin 12345)) duixApiCircuitBreaker
       = (Inl TypeError, duixApiCircuitBreaker, [])"
proof -
  have e: "entryTime sample_clock = 1700000000000" by (simp add: sample_clock_def)
  have tok: "IS_PRODUCTION prod_env \<or> is_string (Str ''token'')"
    by (simp add: token_is_string)
  have dev: "\<not> IS_PRODUCTION dev_env" by (simp add: dev_env_def)
  have retries: "maxRetries prod_env = 2" "maxRetries dev_env = 3"
    by (simp_all add: maxRetries_def prod_env_def dev_env_def)
  have blocked: "callDUIXServiceWithToken sample_runtime prod_env timeout_network sample_clock
        ''hello'' (Str ''token'') open_breaker
       = (Inr (createFallbackResponse sample_runtime prod_env sample_clock open_breaker ''hello''
            1700000000000 Null),
          open_breaker, [])"
    using blocked_call [OF tok open_breaker_blocks] by (simp add: e)
  have info: "js_get (js_get (createFallbackResponse sample_runtime prod_env sample_clock
        open_breaker ''hello'' 1700000000000 Null) ''data'') ''error_info'' = Null"
    by (simp add: fallback_fields js_get_Obj)
  have t: "truthy (Number (Fin 12345))" by (simp add: truthy_def)
  have none: "requests_of [] = []" "updates_of [] = []" by simp_all
  from timeout_network_fails retries blocked none info t initial_allowed
    token_rejected [OF dev token_is_string(2)]
  show ?thesis by blast
qed

text \<open>
  C3 (as amended). When the call gets as far as the breaker (under production, or with a
  string as client token), the breaker lets it through and the first request comes back with
  a status below 500 (a 404, say), the executor makes that one request only, calls
  \<^verbatim>\<open>updateCircuitBreaker(true)\<close>, which leaves the breaker CLOSED with no failures, and
  returns the upstream body unchanged as \<^verbatim>\<open>concurrent_info\<close>, together with the status, the
  elapsed time and the breaker's mode; the response is no fallback response.
\<close>

theorem non_retryable_short_circuit:
  assumes token: "IS_PRODUCTION env \<or> is_string clientToken"
    and allowed: "fst (shouldAttemptDuixCall (checkTime clk) cb)"
    and first: "upstream net 1 = HttpResponse st d"
    and status: "st < 500"
  shows "\<exists>response cb' effects.
      callDUIXServiceWithToken rt env net clk question clientToken cb
        = (Inr response, cb', effects)
    \<and> effects = [Request 1 (baseTimeout env + 2000) (createHTTPSAgent env ''duix_api''),
                  BreakerUpdate True]
    \<and> requests_of effects = [(1, baseTimeout env + 2000)]
    \<and> updates_of effects = [True]
    \<and> cb' = updateCircuitBreaker True (updateTime clk)
               (snd (shouldAttemptDuixCall (checkTime clk) cb))
    \<and> failures cb' = 0
    \<and> state cb' = CLOSED
    \<and> js_get (js_get response ''data'') ''concurrent_info'' = d
    \<and> js_get (js_get response ''data'') ''api_status'' = Number (Fin (of_int st))
    \<and> js_get (js_get response ''data'') ''api_call_successful'' = Bool (st = 200)
    \<and> js_get (js_get response ''data'') ''response_time_ms''
        = Number (js_sub (clock_number (finishTime clk)) (clock_number (entryTime clk)))
    \<and> js_get (js_get response ''data'') ''circuit_breaker_state'' = Str (mode_name (state cb'))
    \<and> js_get (js_get response ''data'') ''real_api_response'' = Bool True
    \<and> js_get (js_get response ''data'') ''fallback_mode'' = Undefined
    \<and> js_get (js_get response ''data'') ''error_info'' = Undefined"
  unfolding resolved_call [OF token allowed first status]
  by (simp add: js_get_Obj updateCircuitBreaker_def mode_name_def)

theorem non_retryable_short_circuit_witness:
  "is_string (Str ''token'')
   \<and> fst (shouldAttemptDuixCall (checkTime sample_clock) duixApiCircuitBreaker)
   \<and> upstream not_found_network 1 = HttpResponse 404 (Obj [(''code'', Str ''404'')])
   \<and> (404 :: int) < 500
   \<and> (\<exists>response cb' effects.
        callDUIXServiceWithToken sample_runtime dev_env not_found_network sample_clock ''hello''
          (Str ''token'') duixApiCircuitBreaker = (Inr response, cb', effects)
      \<and> requests_of effects = [(1, 22000)]
      \<and> updates_of effects = [True]
      \<and> state cb' = CLOSED
      \<and> js_get (js_get response ''data'') ''concurrent_info'' = Obj [(''code'', Str ''404'')]
      \<and> js_get (js_get response ''data'') ''api_status'' = Number (Fin 404)
      \<and> js_get (js_get response ''data'') ''response_time_ms'' = Number (Fin 42)
      \<and> js_get (js_get response ''data'') ''fallback_mode'' = Undefined)"
proof -
  have lt: "(404 :: int) < 500" by simp
  have bt: "baseTimeout dev_env + 2000 = 22000"
    by (simp add: baseTimeout_def dev_env_def)
  have tok: "is_string (Str ''token'')" by (rule token_is_string)
  then have tok_dev: "IS_PRODUCTION dev_env \<or> is_string (Str ''token'')" by simp
  from non_retryable_short_circuit [where clk = sample_clock and cb = duixApiCircuitBreaker
      and net = not_found_network and rt = sample_runtime and env = dev_env
      and question = "''hello''" and clientToken = "Str ''token''",
      OF tok_dev initial_allowed not_found_first lt]
  obtain response cb' effects where
    call: "callDUIXServiceWithToken sample_runtime dev_env not_found_network sample_clock ''hello''
             (Str ''token'') duixApiCircuitBreaker = (Inr response, cb', effects)"
    and facts: "requests_of effects = [(1, baseTimeout dev_env + 2000)]"
      "updates_of effects = [True]"
      "state cb' = CLOSED"
      "js_get (js_get response ''data'') ''concurrent_info'' = Obj [(''code'', Str ''404'')]"
      "js_get (js_get response ''data'') ''api_status'' = Number (Fin (of_int 404))"
      "js_get (js_get response ''data'') ''response_time_ms''
        = Number (js_sub (clock_number (finishTime sample_clock))
                    (clock_number (entryTime sample_clock)))"
      "js_get (js_get response ''data'') ''fallback_mode'' = Undefined"
    by blast
  from call facts
  have run: "\<exists>response cb' effects.
        callDUIXServiceWithToken sample_runtime dev_env not_found_network sample_clock ''hello''
          (Str ''token'') duixApiCircuitBreaker = (Inr response, cb', effects)
      \<and> requests_of effects = [(1, 22000)]
      \<and> updates_of effects = [True]
      \<and> state cb' = CLOSED
      \<and> js_get (js_get response ''data'') ''concurrent_info'' = Obj [(''code'', Str ''404'')]
      \<and> js_get (js_get response ''data'') ''api_status'' = Number (Fin 404)
      \<and> js_get (js_get response ''data'') ''response_time_ms'' = Number (Fin 42)
      \<and> js_get (js_get response ''data'') ''fallback_mode'' = Undefined"
    unfolding bt sample_elapsed by simp
  from tok initial_allowed not_found_first lt run show ?thesis by blast
qed

text \<open>
  C3 as stated fails in two ways. With the breaker open the upstream would answer 404, yet
  the executor makes no request and returns a fallback response. Outside production, with a
  client token that is truthy but no string (the number 12345) and the breaker closed, the
  call throws a \<^verbatim>\<open>TypeError\<close> before the breaker is asked: no request is made, nothing is
  recorded on the breaker and no upstream result is returned.
\<close>

theorem short_circuit_counterexample:
  "upstream not_found_network 1 = HttpResponse 404 (Obj [(''code'', Str ''404'')])
   \<and> callDUIXServiceWithToken sample_runtime prod_env not_found_network sample_clock ''hello''
        (Str ''token'') open_breaker
       = (Inr (createFallbackResponse sample_runtime prod_env sample_clock open_breaker ''hello''
            1700000000000 Null),
          open_breaker, [])
   \<and> js_get (js_get (createFallbackResponse sample_runtime prod_env sample_clock open_breaker
        ''hello'' 1700000000000 Null) ''data'') ''fallback_mode'' = Bool True
   \<and> js_get (js_get (createFallbackResponse sample_runtime prod_env sample_clock open_breaker
        ''hello'' 1700000000000 Null) ''data'') ''api_status'' = Number (Fin 503)
   \<and> js_get (js_get (createFallbackResponse sample_runtime prod_env sample_clock open_breaker
        ''hello'' 1700000000000 Null) ''data'') ''concurrent_info'' = Undefined
   \<and> truthy (Number (Fin 12345))
   \<and> fst (shouldAttemptDuixCall (checkTime sample_clock) duixApiCircuitBreaker)
   \<and> callDUIXServiceWithToken sample_runtime dev_env not_found_network sample_clock ''hello''
        (Number (Fin 12345)) duixApiCircuitBreaker
       = (Inl TypeError, duixApiCircuitBreaker, [])"
proof -
  have e: "entryTime sample_clock = 1700000000000" by (simp add: sample_clock_def)
  have tok: "IS_PRODUCTION prod_env \<or> is_string (Str ''token'')"
    by (simp add: token_is_string)
  have dev: "\<not> IS_PRODUCTION dev_env" by (simp add: dev_env_def)
  have blocked: "callDUIXServiceWithToken sample_runtime prod_env not_found_network sample_clock
        ''hello'' (Str ''token'') open_breaker
       = (Inr (createFallbackResponse sample_runtime prod_env sample_clock open_breaker ''hello''
            1700000000000 Null),
          open_breaker, [])"
    using blocked_call [OF tok open_breaker_blocks] by (simp add: e)
  have fields: "js_get (js_get (createFallbackResponse sample_runtime prod_env sample_clock
        open_breaker ''hello'' 1700000000000 Null) ''data'') ''fallback_mode'' = Bool True"
    "js_get (js_get (createFallbackResponse sample_runtime prod_env sample_clock
        open_breaker ''hello'' 1700000000000 Null) ''data'') ''api_status'' = Number (Fin 503)"
    "js_get (js_get (createFallbackResponse sample_runtime prod_env sample_clock
        open_breaker ''hello'' 1700000000000 Null) ''data'') ''concurrent_info'' = Undefined"
    by (simp_all add: fallback_fields js_get_Obj)
  have t: "truthy (Number (Fin 12345))" by (simp add: truthy_def)
  from not_found_first blocked fields t initial_allowed
    token_rejected [OF dev token_is_string(2)]
  show ?thesis by blast
qed




end
